theory Spec2Isabelle
  imports Main "HOL-Library.AList" "HOL-Library.Sublist" "HOL-Library.Multiset"
begin

section \<open>Go runtime and library behaviour used by the schema model\<close>

text \<open>
  Go strings are byte sequences; they are modelled as \<^typ>\<open>string\<close>. Go's \<open>int\<close> and
  \<open>int64\<close> fields are modelled as \<^typ>\<open>int\<close>: the code only compares them, prints them and
  halves one of them, so no operation can overflow.
\<close>

definition nl :: string where
  "nl = [CHR 0x0A]"

definition esc :: string where
  "esc = [CHR 0x1B]"

text \<open>\<open>strings.Join\<close>.\<close>

fun join :: "string \<Rightarrow> string list \<Rightarrow> string" where
  "join sep [] = []"
| "join sep [x] = x"
| "join sep (x # y # ys) = x @ sep @ join sep (y # ys)"

text \<open>\<open>strings.Repeat\<close>.\<close>

definition repeat :: "string \<Rightarrow> nat \<Rightarrow> string" where
  "repeat s n = concat (replicate n s)"

text \<open>The verb \<open>%d\<close> of \<open>fmt.Sprintf\<close>: decimal digits, with a minus sign for negatives.\<close>

definition digit_char :: "nat \<Rightarrow> char" where
  "digit_char d = (''0123456789'' ! d)"

fun fmt_nat :: "nat \<Rightarrow> string" where
  "fmt_nat n = (if n < 10 then [digit_char n] else fmt_nat (n div 10) @ [digit_char (n mod 10)])"

declare fmt_nat.simps [simp del]

definition fmt_d :: "int \<Rightarrow> string" where
  "fmt_d i = (if i < 0 then ''-'' @ fmt_nat (nat (- i)) else fmt_nat (nat i))"

text \<open>The verb \<open>%v\<close> of \<open>fmt.Sprintf\<close> at a \<open>bool\<close>.\<close>

definition fmt_bool :: "bool \<Rightarrow> string" where
  "fmt_bool b = (if b then ''true'' else ''false'')"

text \<open>Go's integer division \<open>/\<close> truncates towards zero (HOL's \<open>div\<close> rounds down).\<close>

definition quot :: "int \<Rightarrow> int \<Rightarrow> int" where
  "quot a b = sgn a * sgn b * (\<bar>a\<bar> div \<bar>b\<bar>)"

text \<open>
  \<open>strings.ToUpper\<close>, on the ASCII letters. (Go also maps letters beyond ASCII through the
  Unicode tables; those bytes are left as they are here.)
\<close>

definition toUpperChar :: "char \<Rightarrow> char" where
  "toUpperChar ch =
     (case map_of (zip ''abcdefghijklmnopqrstuvwxyz'' ''ABCDEFGHIJKLMNOPQRSTUVWXYZ'') ch of
        Some u \<Rightarrow> u
      | None \<Rightarrow> ch)"

definition ToUpper :: "string \<Rightarrow> string" where
  "ToUpper s = map toUpperChar s"

text \<open>\<open>strings.HasPrefix\<close>.\<close>

definition HasPrefix :: "string \<Rightarrow> string \<Rightarrow> bool" where
  "HasPrefix s p = prefix p s"

text \<open>\<open>strings.ReplaceAll(s, "_", " ")\<close>: both strings are one byte long.\<close>

definition ReplaceAll_underscore :: "string \<Rightarrow> string" where
  "ReplaceAll_underscore s = map (\<lambda>ch. if ch = CHR ''_'' then CHR '' '' else ch) s"

subsection \<open>Maps and their iteration order\<close>

text \<open>
  A Go \<open>map[string]V\<close> is modelled as an association list with distinct keys, in the order
  in which the keys were first stored; \<open>m[k] = v\<close> is \<^const>\<open>AList.update\<close> (it overwrites
  the value of a key already present) and \<open>v, exists := m[k]\<close> is \<^const>\<open>map_of\<close>.

  Go leaves the order of \<open>for k, v := range m\<close> unspecified. The order is a parameter of the
  model: \<open>rank\<close> gives every key a number and a \<open>range\<close> loop visits the entries by ascending
  rank (entries of equal rank in the order they were stored). Whatever \<open>rank\<close> is, the loop
  visits every entry exactly once, and every order of the entries is the order of some
  \<open>rank\<close> (lemmas \<open>range_map_permutes\<close> and \<open>every_order_is_a_rank\<close> below). One \<open>rank\<close>
  serves all the loops of one comparison; the properties below hold for every \<open>rank\<close>.
\<close>

type_synonym 'v gomap = "(string \<times> 'v) list"

type_synonym range_order = "string \<Rightarrow> nat"

definition range_map :: "range_order \<Rightarrow> 'v gomap \<Rightarrow> (string \<times> 'v) list" where
  "range_map rank m = sort_key (\<lambda>e. rank (fst e)) m"

text \<open>The rank that visits the keys in the order of the list \<open>ks\<close>.\<close>

definition position_in :: "string list \<Rightarrow> range_order" where
  "position_in ks k = length (takeWhile (\<lambda>x. x \<noteq> k) ks)"

section \<open>The schema model (package domain, schema.go)\<close>

record Column =
  col_Name :: string
  col_OrdinalPosition :: int
  col_DataType :: string
  col_MaxLength :: int
  col_Precision :: int
  col_Scale :: int
  col_IsNullable :: bool
  col_HasDefault :: bool
  col_DefaultValue :: string
  col_IsIdentity :: bool
  col_IdentitySeed :: int
  col_IdentityIncrement :: int
  col_IsComputed :: bool
  col_ComputedDefinition :: string
  col_Collation :: string

record IndexColumn =
  ic_Name :: string
  ic_Position :: int
  ic_IsDescending :: bool
  ic_IsIncluded :: bool

record Index =
  idx_Name :: string
  idx_SchemaName :: string
  idx_TableName :: string
  idx_IsPrimaryKey :: bool
  idx_IsUnique :: bool
  idx_IsClustered :: bool
  idx_IsDisabled :: bool
  idx_FilterDefinition :: string
  idx_Columns :: "IndexColumn list"

record ForeignKeyColumn =
  fkc_ColumnName :: string
  fkc_ReferencedColumnName :: string

record ForeignKey =
  fk_Name :: string
  fk_SchemaName :: string
  fk_TableName :: string
  fk_ReferencedSchemaName :: string
  fk_ReferencedTableName :: string
  fk_DeleteAction :: string
  fk_UpdateAction :: string
  fk_Columns :: "ForeignKeyColumn list"

record CheckConstraint =
  cc_Name :: string
  cc_SchemaName :: string
  cc_TableName :: string
  cc_Definition :: string
  cc_IsDisabled :: bool

text \<open>\<open>PrimaryKey *Index\<close> is a pointer that may be \<open>nil\<close>: an \<^typ>\<open>Index option\<close>.\<close>

record Table =
  tbl_SchemaName :: string
  tbl_Name :: string
  tbl_Columns :: "Column list"
  tbl_PrimaryKey :: "Index option"
  tbl_Indexes :: "Index list"
  tbl_ForeignKeys :: "ForeignKey list"
  tbl_CheckConstraints :: "CheckConstraint list"

record View =
  view_SchemaName :: string
  view_Name :: string
  view_Definition :: string

record StoredProcedure =
  sp_SchemaName :: string
  sp_Name :: string
  sp_Definition :: string

record Function =
  fn_SchemaName :: string
  fn_Name :: string
  fn_Definition :: string
  fn_FuncType :: string

record Trigger =
  trg_SchemaName :: string
  trg_TableName :: string
  trg_Name :: string
  trg_Definition :: string
  trg_IsDisabled :: bool

record Schema =
  sch_Name :: string
  sch_Owner :: string

record DatabaseSchema =
  DatabaseName :: string
  Schemas :: "Schema list"
  Tables :: "Table list"
  Views :: "View list"
  StoredProcedures :: "StoredProcedure list"
  Functions :: "Function list"
  Triggers :: "Trigger list"

subsection \<open>Column.GenerateSQL\<close>

definition length_types :: "string list" where
  "length_types = [''VARCHAR'', ''NVARCHAR'', ''CHAR'', ''NCHAR'', ''VARBINARY'', ''BINARY'']"

definition precision_types :: "string list" where
  "precision_types = [''DECIMAL'', ''NUMERIC'']"

definition scale_types :: "string list" where
  "scale_types = [''DATETIME2'', ''DATETIMEOFFSET'', ''TIME'']"

text \<open>The \<open>switch strings.ToUpper(c.DataType)\<close> of \<open>Column.GenerateSQL\<close>.\<close>

definition type_suffix :: "Column \<Rightarrow> string" where
  "type_suffix c =
     (if ToUpper (col_DataType c) \<in> set length_types then
        (if col_MaxLength c = - 1 then ''(MAX)''
         else if HasPrefix (ToUpper (col_DataType c)) ''N''
           then ''('' @ fmt_d (quot (col_MaxLength c) 2) @ '')''
         else ''('' @ fmt_d (col_MaxLength c) @ '')'')
      else if ToUpper (col_DataType c) \<in> set precision_types then
        ''('' @ fmt_d (col_Precision c) @ '','' @ fmt_d (col_Scale c) @ '')''
      else if ToUpper (col_DataType c) \<in> set scale_types then
        (if col_Scale c > 0 then ''('' @ fmt_d (col_Scale c) @ '')'' else '''')
      else '''')"

text \<open>The identity, nullability and default clauses, in the order they are written.\<close>

definition column_clauses :: "Column \<Rightarrow> string" where
  "column_clauses c =
     (if col_IsIdentity c
        then '' IDENTITY('' @ fmt_d (col_IdentitySeed c) @ '','' @ fmt_d (col_IdentityIncrement c) @ '')''
        else [])
     @ (if col_IsNullable c then '' NULL'' else '' NOT NULL'')
     @ (if col_HasDefault c \<and> col_DefaultValue c \<noteq> [] then '' DEFAULT '' @ col_DefaultValue c
        else [])"

definition Column_GenerateSQL :: "Column \<Rightarrow> string" where
  "Column_GenerateSQL c =
     (if col_IsComputed c then ''['' @ col_Name c @ ''] '' @ ''AS '' @ col_ComputedDefinition c
      else ''['' @ col_Name c @ ''] '' @ col_DataType c @ type_suffix c @ column_clauses c)"

subsection \<open>Index.GenerateSQL, ForeignKey.GenerateSQL, CheckConstraint.GenerateSQL\<close>

definition index_colDef :: "IndexColumn \<Rightarrow> string" where
  "index_colDef col = ''    ['' @ ic_Name col @ '']'' @ (if ic_IsDescending col then '' DESC'' else '''')"

definition index_keyCols :: "IndexColumn list \<Rightarrow> string list" where
  "index_keyCols cols = map index_colDef (filter (\<lambda>col. \<not> ic_IsIncluded col) cols)"

definition index_includeCols :: "IndexColumn list \<Rightarrow> string list" where
  "index_includeCols cols =
     map (\<lambda>col. ''    ['' @ ic_Name col @ '']'') (filter (\<lambda>col. ic_IsIncluded col) cols)"

definition Index_GenerateSQL :: "Index \<Rightarrow> string" where
  "Index_GenerateSQL i =
     (if idx_IsPrimaryKey i then ''''
      else
        ''CREATE ''
        @ (if idx_IsUnique i then ''UNIQUE '' else '''')
        @ (if idx_IsClustered i then ''CLUSTERED '' else ''NONCLUSTERED '')
        @ ''INDEX ['' @ idx_Name i @ ''] ON ['' @ idx_SchemaName i @ ''].['' @ idx_TableName i @ ''] ('' @ nl
        @ join ('','' @ nl) (index_keyCols (idx_Columns i))
        @ nl @ '')''
        @ (if length (index_includeCols (idx_Columns i)) > 0
             then '' INCLUDE ('' @ nl @ join ('','' @ nl) (index_includeCols (idx_Columns i)) @ nl @ '')''
             else '''')
        @ (if idx_FilterDefinition i \<noteq> '''' then '' WHERE '' @ idx_FilterDefinition i else ''''))"

definition ForeignKey_GenerateSQL :: "ForeignKey \<Rightarrow> string" where
  "ForeignKey_GenerateSQL fk =
     ''ALTER TABLE ['' @ fk_SchemaName fk @ ''].['' @ fk_TableName fk @ ''] ADD CONSTRAINT [''
       @ fk_Name fk @ ''] FOREIGN KEY ('' @ nl
     @ join ('','' @ nl) (map (\<lambda>c. ''    ['' @ fkc_ColumnName c @ '']'') (fk_Columns fk))
     @ nl @ '') REFERENCES ['' @ fk_ReferencedSchemaName fk @ ''].['' @ fk_ReferencedTableName fk
       @ ''] ('' @ nl
     @ join ('','' @ nl) (map (\<lambda>c. ''    ['' @ fkc_ReferencedColumnName c @ '']'') (fk_Columns fk))
     @ nl @ '')''
     @ (if fk_DeleteAction fk \<noteq> '''' \<and> fk_DeleteAction fk \<noteq> ''NO_ACTION''
          then '' ON DELETE '' @ ReplaceAll_underscore (fk_DeleteAction fk) else '''')
     @ (if fk_UpdateAction fk \<noteq> '''' \<and> fk_UpdateAction fk \<noteq> ''NO_ACTION''
          then '' ON UPDATE '' @ ReplaceAll_underscore (fk_UpdateAction fk) else '''')"

definition CheckConstraint_GenerateSQL :: "CheckConstraint \<Rightarrow> string" where
  "CheckConstraint_GenerateSQL cc =
     ''ALTER TABLE ['' @ cc_SchemaName cc @ ''].['' @ cc_TableName cc @ ''] ADD CONSTRAINT [''
       @ cc_Name cc @ ''] CHECK '' @ cc_Definition cc"

section \<open>The difference model (package domain)\<close>

text \<open>
  \<open>DiffType\<close> is a Go string type: every string is a value of it, and the three constants
  are the kinds that the comparator writes.
\<close>

type_synonym DiffType = string

definition DiffAdded :: DiffType where
  "DiffAdded = ''ADDED''"

definition DiffRemoved :: DiffType where
  "DiffRemoved = ''REMOVED''"

definition DiffModified :: DiffType where
  "DiffModified = ''MODIFIED''"

text \<open>
  \<open>DiffCategory\<close> is a Go string type used as an enumeration; it is modelled by its ten
  constants.
\<close>

datatype DiffCategory =
    DiffCategorySchema
  | DiffCategoryTable
  | DiffCategoryColumn
  | DiffCategoryIndex
  | DiffCategoryForeignKey
  | DiffCategoryConstraint
  | DiffCategoryView
  | DiffCategoryProcedure
  | DiffCategoryFunction
  | DiffCategoryTrigger

text \<open>The string behind each \<open>DiffCategory\<close> constant, as \<open>%s\<close> prints it.\<close>

fun category_string :: "DiffCategory \<Rightarrow> string" where
  "category_string DiffCategorySchema = ''SCHEMA''"
| "category_string DiffCategoryTable = ''TABLE''"
| "category_string DiffCategoryColumn = ''COLUMN''"
| "category_string DiffCategoryIndex = ''INDEX''"
| "category_string DiffCategoryForeignKey = ''FOREIGN_KEY''"
| "category_string DiffCategoryConstraint = ''CONSTRAINT''"
| "category_string DiffCategoryView = ''VIEW''"
| "category_string DiffCategoryProcedure = ''PROCEDURE''"
| "category_string DiffCategoryFunction = ''FUNCTION''"
| "category_string DiffCategoryTrigger = ''TRIGGER''"

record Difference =
  Type :: DiffType
  Category :: DiffCategory
  ObjectName :: string
  PropertyName :: string
  SourceValue :: string
  TargetValue :: string
  Description :: string
  MigrationSQL :: string

text \<open>
  \<open>Difference.String\<close>: the marker is wrapped in ANSI colour escapes. The \<open>switch\<close> has no
  default case: for any other kind the marker stays empty.
\<close>

definition marker :: "DiffType \<Rightarrow> string" where
  "marker t =
     (if t = DiffAdded then esc @ ''[32m+'' @ esc @ ''[0m''
      else if t = DiffRemoved then esc @ ''[31m-'' @ esc @ ''[0m''
      else if t = DiffModified then esc @ ''[33m~'' @ esc @ ''[0m''
      else [])"

definition Difference_String :: "Difference \<Rightarrow> string" where
  "Difference_String d =
     marker (Type d) @ '' ['' @ category_string (Category d) @ ''] '' @ ObjectName d @ '': ''
     @ Description d"

record DiffSummary =
  TotalDifferences :: int
  Added :: int
  Removed :: int
  Modified :: int
  ByCategory :: "DiffCategory \<rightharpoonup> int"

record DiffResult =
  SourceDatabase :: string
  TargetDatabase :: string
  Differences :: "Difference list"
  Summary :: DiffSummary

definition HasDifferences :: "DiffResult \<Rightarrow> bool" where
  "HasDifferences r = (length (Differences r) > 0)"

definition FilterByType :: "DiffResult \<Rightarrow> DiffType \<Rightarrow> Difference list" where
  "FilterByType r diffType = filter (\<lambda>d. Type d = diffType) (Differences r)"

definition FilterByCategory :: "DiffResult \<Rightarrow> DiffCategory \<Rightarrow> Difference list" where
  "FilterByCategory r category = filter (\<lambda>d. Category d = category) (Differences r)"

subsection \<open>GenerateMigrationScript\<close>

definition categories :: "DiffCategory list" where
  "categories =
     [DiffCategorySchema, DiffCategoryTable, DiffCategoryColumn, DiffCategoryIndex,
      DiffCategoryForeignKey, DiffCategoryConstraint, DiffCategoryView, DiffCategoryProcedure,
      DiffCategoryFunction, DiffCategoryTrigger]"

definition migration_header :: "DiffResult \<Rightarrow> string" where
  "migration_header r =
     ''-- ============================================'' @ nl
     @ ''-- Migration Script'' @ nl
     @ ''-- From: '' @ SourceDatabase r @ nl
     @ ''-- To:   '' @ TargetDatabase r @ nl
     @ ''-- ============================================'' @ nl @ nl"

definition category_banner :: "DiffCategory \<Rightarrow> string" where
  "category_banner cat =
     ''-- '' @ category_string cat @ '' Changes'' @ nl
     @ ''-- '' @ repeat ''-'' 40 @ nl @ nl"

text \<open>The inner loop over the differences of one category.\<close>

definition migration_statements :: "Difference list \<Rightarrow> string" where
  "migration_statements diffs =
     concat (map (\<lambda>d. if MigrationSQL d \<noteq> ''''
                        then ''-- '' @ Description d @ nl @ MigrationSQL d @ nl @ ''GO'' @ nl @ nl
                        else '''') diffs)"

text \<open>One round of the outer loop: what the category \<open>cat\<close> adds to the script.\<close>

definition migration_section :: "DiffResult \<Rightarrow> DiffCategory \<Rightarrow> string" where
  "migration_section r cat =
     (let diffs = FilterByCategory r cat in
      if length diffs = 0 then ''''
      else category_banner cat @ migration_statements diffs)"

definition GenerateMigrationScript :: "DiffResult \<Rightarrow> string" where
  "GenerateMigrationScript r = migration_header r @ concat (map (migration_section r) categories)"

subsection \<open>PrintGitStyle\<close>

text \<open>
  The loop of \<open>PrintGitStyle\<close>, with its variable \<open>currentCategory\<close>. The variable starts as
  the empty string, which is no category: \<open>None\<close>.
\<close>

fun print_loop :: "DiffCategory option \<Rightarrow> Difference list \<Rightarrow> string" where
  "print_loop currentCategory [] = ''''"
| "print_loop currentCategory (d # ds) =
     (if Some (Category d) \<noteq> currentCategory
      then nl @ ''@@ '' @ category_string (Category d) @ '' @@'' @ nl
           @ Difference_String d @ nl @ print_loop (Some (Category d)) ds
      else Difference_String d @ nl @ print_loop currentCategory ds)"

definition PrintGitStyle :: "DiffResult \<Rightarrow> string" where
  "PrintGitStyle r =
     ''diff --sqlpulse a/'' @ SourceDatabase r @ '' b/'' @ TargetDatabase r @ nl
     @ ''--- a/'' @ SourceDatabase r @ nl
     @ ''+++ b/'' @ TargetDatabase r @ nl
     @ nl
     @ print_loop None (Differences r)"

subsection \<open>CalculateSummary\<close>

text \<open>
  One round of the loop. The \<open>switch d.Type\<close> has no default case: a difference of any other
  kind is counted in the total and in its category, and in none of the three kind counters.
\<close>

definition summary_step :: "Difference \<Rightarrow> DiffSummary \<Rightarrow> DiffSummary" where
  "summary_step d s =
     (let s1 = s\<lparr>TotalDifferences := TotalDifferences s + 1\<rparr>;
          s2 = s1\<lparr>ByCategory := (ByCategory s1)
                   (Category d \<mapsto> (case ByCategory s1 (Category d) of None \<Rightarrow> 0 | Some n \<Rightarrow> n) + 1)\<rparr>
      in if Type d = DiffAdded then s2\<lparr>Added := Added s2 + 1\<rparr>
         else if Type d = DiffRemoved then s2\<lparr>Removed := Removed s2 + 1\<rparr>
         else if Type d = DiffModified then s2\<lparr>Modified := Modified s2 + 1\<rparr>
         else s2)"

definition empty_summary :: DiffSummary where
  "empty_summary =
     \<lparr>TotalDifferences = 0, Added = 0, Removed = 0, Modified = 0, ByCategory = Map.empty\<rparr>"

definition CalculateSummary :: "DiffResult \<Rightarrow> DiffResult" where
  "CalculateSummary r = r\<lparr>Summary := fold summary_step (Differences r) empty_summary\<rparr>"

subsection \<open>DiffOptions\<close>

record DiffOptions =
  IncludeTables :: bool
  IncludeViews :: bool
  IncludeProcedures :: bool
  IncludeFunctions :: bool
  IncludeTriggers :: bool
  IncludeIndexes :: bool
  IncludeForeignKeys :: bool
  IncludeConstraints :: bool
  SchemaFilter :: "string list"
  TableFilter :: "string list"
  IgnoreCollation :: bool
  IgnoreWhitespace :: bool

definition DefaultDiffOptions :: DiffOptions where
  "DefaultDiffOptions =
     \<lparr>IncludeTables = True, IncludeViews = True, IncludeProcedures = True,
      IncludeFunctions = True, IncludeTriggers = True, IncludeIndexes = True,
      IncludeForeignKeys = True, IncludeConstraints = True, SchemaFilter = [],
      TableFilter = [], IgnoreCollation = False, IgnoreWhitespace = True\<rparr>"

section \<open>The schema comparator (package services)\<close>

record SchemaComparator =
  options :: DiffOptions

definition NewSchemaComparator :: "DiffOptions option \<Rightarrow> SchemaComparator" where
  "NewSchemaComparator opts =
     (case opts of None \<Rightarrow> \<lparr>options = DefaultDiffOptions\<rparr> | Some v \<Rightarrow> \<lparr>options = v\<rparr>)"

text \<open>
  Every comparison routine of the source appends to \<open>result.Differences\<close> and does nothing
  else. Each is modelled by the list of the differences it appends, in the order it appends
  them; the caller concatenates the lists. \<open>for_range rank m body\<close> is the loop
  \<open>for k, v := range m { body }\<close>. Helper methods that do not read the options are modelled
  without their receiver.
\<close>

definition for_range ::
  "range_order \<Rightarrow> 'v gomap \<Rightarrow> (string \<Rightarrow> 'v \<Rightarrow> Difference list) \<Rightarrow> Difference list" where
  "for_range rank m body = concat (map (\<lambda>(k, v). body k v) (range_map rank m))"

subsection \<open>Building the name-keyed maps\<close>

definition formatTableName :: "Table \<Rightarrow> string" where
  "formatTableName t = ''['' @ tbl_SchemaName t @ ''].['' @ tbl_Name t @ '']''"

definition tablesToMap :: "Table list \<Rightarrow> Table gomap" where
  "tablesToMap tables = fold (\<lambda>t m. AList.update (formatTableName t) t m) tables []"

definition columnsToMap :: "Column list \<Rightarrow> Column gomap" where
  "columnsToMap columns = fold (\<lambda>col m. AList.update (col_Name col) col m) columns []"

definition indexesToMap :: "Index list \<Rightarrow> Index gomap" where
  "indexesToMap indexes = fold (\<lambda>idx m. AList.update (idx_Name idx) idx m) indexes []"

definition foreignKeysToMap :: "ForeignKey list \<Rightarrow> ForeignKey gomap" where
  "foreignKeysToMap fks = fold (\<lambda>fk m. AList.update (fk_Name fk) fk m) fks []"

definition checkConstraintsToMap :: "CheckConstraint list \<Rightarrow> CheckConstraint gomap" where
  "checkConstraintsToMap ccs = fold (\<lambda>cc m. AList.update (cc_Name cc) cc m) ccs []"

definition view_key :: "View \<Rightarrow> string" where
  "view_key v = ''['' @ view_SchemaName v @ ''].['' @ view_Name v @ '']''"

definition viewsToMap :: "View list \<Rightarrow> View gomap" where
  "viewsToMap views = fold (\<lambda>v m. AList.update (view_key v) v m) views []"

definition procedure_key :: "StoredProcedure \<Rightarrow> string" where
  "procedure_key p = ''['' @ sp_SchemaName p @ ''].['' @ sp_Name p @ '']''"

definition proceduresToMap :: "StoredProcedure list \<Rightarrow> StoredProcedure gomap" where
  "proceduresToMap procs = fold (\<lambda>p m. AList.update (procedure_key p) p m) procs []"

definition function_key :: "Function \<Rightarrow> string" where
  "function_key f = ''['' @ fn_SchemaName f @ ''].['' @ fn_Name f @ '']''"

definition functionsToMap :: "Function list \<Rightarrow> Function gomap" where
  "functionsToMap funcs = fold (\<lambda>f m. AList.update (function_key f) f m) funcs []"

definition trigger_key :: "Trigger \<Rightarrow> string" where
  "trigger_key t =
     ''['' @ trg_SchemaName t @ ''].['' @ trg_TableName t @ ''].['' @ trg_Name t @ '']''"

definition triggersToMap :: "Trigger list \<Rightarrow> Trigger gomap" where
  "triggersToMap triggers = fold (\<lambda>t m. AList.update (trigger_key t) t m) triggers []"

definition indexColumnsToString :: "IndexColumn list \<Rightarrow> string" where
  "indexColumnsToString cols =
     join '', ''
       (map (\<lambda>col. ic_Name col
                @ (if ic_IsDescending col then '' DESC'' else '''')
                @ (if ic_IsIncluded col then '' (INCLUDE)'' else '''')) cols)"

subsection \<open>Equality of definitions\<close>

text \<open>The class \<open>\s\<close> of Go's regular expressions is \<open>[\t\n\f\r ]\<close>.\<close>

definition is_regex_space :: "char \<Rightarrow> bool" where
  "is_regex_space ch = (ch \<in> set [CHR 0x09, CHR 0x0A, CHR 0x0C, CHR 0x0D, CHR 0x20])"

text \<open>
  \<open>regexp.MustCompile(`\s+`).ReplaceAllString(s, " ")\<close>: every maximal run of \<open>\s\<close> bytes
  becomes one space.
\<close>

function replace_space_runs :: "string \<Rightarrow> string" where
  "replace_space_runs [] = []"
| "replace_space_runs (ch # cs) =
     (if is_regex_space ch then CHR '' '' # replace_space_runs (dropWhile is_regex_space cs)
      else ch # replace_space_runs cs)"
  by pat_completeness auto
termination
  by (relation "measure length") (auto simp: length_dropWhile_le less_Suc_eq_le)

text \<open>
  \<open>strings.TrimSpace\<close> removes the leading and the trailing runes for which
  \<open>unicode.IsSpace\<close> holds. \<open>space_runes\<close> lists these runes in UTF-8: the six ASCII ones,
  U+0085, U+00A0, U+1680, U+2000 to U+200A, U+2028, U+2029, U+202F, U+205F and U+3000.
\<close>

definition space_runes :: "string list" where
  "space_runes =
     [[CHR 0x09], [CHR 0x0A], [CHR 0x0B], [CHR 0x0C], [CHR 0x0D], [CHR 0x20],
      [CHR 0xC2, CHR 0x85], [CHR 0xC2, CHR 0xA0],
      [CHR 0xE1, CHR 0x9A, CHR 0x80],
      [CHR 0xE2, CHR 0x80, CHR 0x80], [CHR 0xE2, CHR 0x80, CHR 0x81],
      [CHR 0xE2, CHR 0x80, CHR 0x82], [CHR 0xE2, CHR 0x80, CHR 0x83],
      [CHR 0xE2, CHR 0x80, CHR 0x84], [CHR 0xE2, CHR 0x80, CHR 0x85],
      [CHR 0xE2, CHR 0x80, CHR 0x86], [CHR 0xE2, CHR 0x80, CHR 0x87],
      [CHR 0xE2, CHR 0x80, CHR 0x88], [CHR 0xE2, CHR 0x80, CHR 0x89],
      [CHR 0xE2, CHR 0x80, CHR 0x8A],
      [CHR 0xE2, CHR 0x80, CHR 0xA8], [CHR 0xE2, CHR 0x80, CHR 0xA9],
      [CHR 0xE2, CHR 0x80, CHR 0xAF],
      [CHR 0xE2, CHR 0x81, CHR 0x9F],
      [CHR 0xE3, CHR 0x80, CHR 0x80]]"

text \<open>Removing, from the front of \<open>s\<close>, every leading occurrence of one of the patterns.\<close>

function trim_front :: "string list \<Rightarrow> string \<Rightarrow> string" where
  "trim_front ps s =
     (case find (\<lambda>p. p \<noteq> [] \<and> prefix p s) ps of
        None \<Rightarrow> s
      | Some p \<Rightarrow> trim_front ps (drop (length p) s))"
  by pat_completeness auto
termination
proof (relation "measure (\<lambda>(ps, s). length s)")
  show "wf (measure (\<lambda>(ps, s). length s))"
    by simp
next
  fix ps :: "string list" and s p :: string
  assume "find (\<lambda>p. p \<noteq> [] \<and> prefix p s) ps = Some p"
  then have "p \<noteq> []" and "prefix p s"
    by (auto simp: find_Some_iff)
  then have "s \<noteq> []" and "0 < length p"
    by auto
  then show "((ps, drop (length p) s), (ps, s)) \<in> measure (\<lambda>(ps, s). length s)"
    by simp
qed

declare trim_front.simps [simp del]

definition TrimSpace :: "string \<Rightarrow> string" where
  "TrimSpace s = rev (trim_front (map rev space_runes) (rev (trim_front space_runes s)))"

definition normalizeWhitespace :: "string \<Rightarrow> string" where
  "normalizeWhitespace s = TrimSpace (replace_space_runs s)"

definition definitionsEqual :: "SchemaComparator \<Rightarrow> string \<Rightarrow> string \<Rightarrow> bool" where
  "definitionsEqual c source target =
     (if IgnoreWhitespace (options c)
      then normalizeWhitespace source = normalizeWhitespace target
      else source = target)"

subsection \<open>Columns\<close>

definition null_text :: "bool \<Rightarrow> string" where
  "null_text isNullable = (if \<not> isNullable then ''NOT NULL'' else ''NULL'')"

definition compareColumnDetails ::
  "SchemaComparator \<Rightarrow> string \<Rightarrow> Column \<Rightarrow> Column \<Rightarrow> Difference list" where
  "compareColumnDetails c tableName source target =
     (let colName = tableName @ ''.'' @ col_Name source in
      (if col_DataType source \<noteq> col_DataType target then
         [\<lparr>Type = DiffModified, Category = DiffCategoryColumn, ObjectName = colName,
           PropertyName = ''DataType'', SourceValue = col_DataType source,
           TargetValue = col_DataType target,
           Description = ''Data type differs: '' @ col_DataType source @ '' vs ''
             @ col_DataType target,
           MigrationSQL = ''ALTER TABLE '' @ tableName @ '' ALTER COLUMN ['' @ col_Name source
             @ ''] '' @ col_DataType source @ '';''\<rparr>]
       else [])
      @ (if col_MaxLength source \<noteq> col_MaxLength target then
         [\<lparr>Type = DiffModified, Category = DiffCategoryColumn, ObjectName = colName,
           PropertyName = ''MaxLength'', SourceValue = fmt_d (col_MaxLength source),
           TargetValue = fmt_d (col_MaxLength target),
           Description = ''Max length differs: '' @ fmt_d (col_MaxLength source) @ '' vs ''
             @ fmt_d (col_MaxLength target),
           MigrationSQL = ''''\<rparr>]
       else [])
      @ (if col_Precision source \<noteq> col_Precision target \<or> col_Scale source \<noteq> col_Scale target then
         [\<lparr>Type = DiffModified, Category = DiffCategoryColumn, ObjectName = colName,
           PropertyName = ''Precision/Scale'',
           SourceValue = ''('' @ fmt_d (col_Precision source) @ '','' @ fmt_d (col_Scale source) @ '')'',
           TargetValue = ''('' @ fmt_d (col_Precision target) @ '','' @ fmt_d (col_Scale target) @ '')'',
           Description = ''Precision/Scale differs: (''
             @ fmt_d (col_Precision source) @ '','' @ fmt_d (col_Scale source) @ '') vs (''
             @ fmt_d (col_Precision target) @ '','' @ fmt_d (col_Scale target) @ '')'',
           MigrationSQL = ''''\<rparr>]
       else [])
      @ (if col_IsNullable source \<noteq> col_IsNullable target then
         (let srcNull = null_text (col_IsNullable source);
              tgtNull = null_text (col_IsNullable target) in
          [\<lparr>Type = DiffModified, Category = DiffCategoryColumn, ObjectName = colName,
            PropertyName = ''Nullability'', SourceValue = srcNull, TargetValue = tgtNull,
            Description = ''Nullability differs: '' @ srcNull @ '' vs '' @ tgtNull,
            MigrationSQL = ''''\<rparr>])
       else [])
      @ (if col_IsIdentity source \<noteq> col_IsIdentity target then
         [\<lparr>Type = DiffModified, Category = DiffCategoryColumn, ObjectName = colName,
           PropertyName = ''Identity'', SourceValue = fmt_bool (col_IsIdentity source),
           TargetValue = fmt_bool (col_IsIdentity target),
           Description = ''Identity property differs'',
           MigrationSQL = ''''\<rparr>]
       else [])
      @ (if \<not> IgnoreCollation (options c) \<and> col_Collation source \<noteq> col_Collation target then
         [\<lparr>Type = DiffModified, Category = DiffCategoryColumn, ObjectName = colName,
           PropertyName = ''Collation'', SourceValue = col_Collation source,
           TargetValue = col_Collation target,
           Description = ''Collation differs: '' @ col_Collation source @ '' vs ''
             @ col_Collation target,
           MigrationSQL = ''''\<rparr>]
       else []))"

definition compareColumns ::
  "SchemaComparator \<Rightarrow> range_order \<Rightarrow> string \<Rightarrow> Column list \<Rightarrow> Column list \<Rightarrow> Difference list" where
  "compareColumns c rank tableName source target =
     (let sourceMap = columnsToMap source;
          targetMap = columnsToMap target in
      for_range rank sourceMap (\<lambda>name srcCol.
        if map_of targetMap name = None then
          [\<lparr>Type = DiffRemoved, Category = DiffCategoryColumn,
            ObjectName = tableName @ ''.'' @ name, PropertyName = '''', SourceValue = '''',
            TargetValue = '''',
            Description = ''Column ['' @ name @ ''] missing in target'',
            MigrationSQL = ''ALTER TABLE '' @ tableName @ '' ADD '' @ Column_GenerateSQL srcCol
              @ '';''\<rparr>]
        else [])
      @ for_range rank targetMap (\<lambda>name tgtCol.
        if map_of sourceMap name = None then
          [\<lparr>Type = DiffAdded, Category = DiffCategoryColumn,
            ObjectName = tableName @ ''.'' @ name, PropertyName = '''', SourceValue = '''',
            TargetValue = '''',
            Description = ''Column ['' @ name @ ''] exists only in target'',
            MigrationSQL = ''ALTER TABLE '' @ tableName @ '' DROP COLUMN ['' @ name @ ''];''\<rparr>]
        else [])
      @ for_range rank sourceMap (\<lambda>name srcCol.
        case map_of targetMap name of
          Some tgtCol \<Rightarrow> compareColumnDetails c tableName srcCol tgtCol
        | None \<Rightarrow> []))"

subsection \<open>Indexes\<close>

definition compareIndexDetails :: "string \<Rightarrow> Index \<Rightarrow> Index \<Rightarrow> Difference list" where
  "compareIndexDetails tableName source target =
     (let idxName = tableName @ ''.'' @ idx_Name source;
          srcCols = indexColumnsToString (idx_Columns source);
          tgtCols = indexColumnsToString (idx_Columns target) in
      (if idx_IsUnique source \<noteq> idx_IsUnique target then
         [\<lparr>Type = DiffModified, Category = DiffCategoryIndex, ObjectName = idxName,
           PropertyName = ''IsUnique'', SourceValue = fmt_bool (idx_IsUnique source),
           TargetValue = fmt_bool (idx_IsUnique target),
           Description = ''Unique property differs'', MigrationSQL = ''''\<rparr>]
       else [])
      @ (if idx_IsClustered source \<noteq> idx_IsClustered target then
         [\<lparr>Type = DiffModified, Category = DiffCategoryIndex, ObjectName = idxName,
           PropertyName = ''IsClustered'', SourceValue = fmt_bool (idx_IsClustered source),
           TargetValue = fmt_bool (idx_IsClustered target),
           Description = ''Clustered property differs'', MigrationSQL = ''''\<rparr>]
       else [])
      @ (if srcCols \<noteq> tgtCols then
         [\<lparr>Type = DiffModified, Category = DiffCategoryIndex, ObjectName = idxName,
           PropertyName = ''Columns'', SourceValue = srcCols, TargetValue = tgtCols,
           Description = ''Index columns differ: ['' @ srcCols @ ''] vs ['' @ tgtCols @ '']'',
           MigrationSQL = ''''\<rparr>]
       else []))"

definition compareIndexes ::
  "range_order \<Rightarrow> string \<Rightarrow> Index list \<Rightarrow> Index list \<Rightarrow> Difference list" where
  "compareIndexes rank tableName source target =
     (let sourceMap = indexesToMap source;
          targetMap = indexesToMap target in
      for_range rank sourceMap (\<lambda>name srcIdx.
        if map_of targetMap name = None then
          [\<lparr>Type = DiffRemoved, Category = DiffCategoryIndex,
            ObjectName = tableName @ ''.'' @ name, PropertyName = '''', SourceValue = '''',
            TargetValue = '''',
            Description = ''Index ['' @ name @ ''] missing in target'',
            MigrationSQL = Index_GenerateSQL srcIdx @ '';''\<rparr>]
        else [])
      @ for_range rank targetMap (\<lambda>name tgtIdx.
        if map_of sourceMap name = None then
          [\<lparr>Type = DiffAdded, Category = DiffCategoryIndex,
            ObjectName = tableName @ ''.'' @ name, PropertyName = '''', SourceValue = '''',
            TargetValue = '''',
            Description = ''Index ['' @ name @ ''] exists only in target'',
            MigrationSQL = ''DROP INDEX ['' @ name @ ''] ON '' @ tableName @ '';''\<rparr>]
        else [])
      @ for_range rank sourceMap (\<lambda>name srcIdx.
        case map_of targetMap name of
          Some tgtIdx \<Rightarrow> compareIndexDetails tableName srcIdx tgtIdx
        | None \<Rightarrow> []))"

subsection \<open>Foreign keys, check constraints, primary keys\<close>

definition compareForeignKeys ::
  "range_order \<Rightarrow> string \<Rightarrow> ForeignKey list \<Rightarrow> ForeignKey list \<Rightarrow> Difference list" where
  "compareForeignKeys rank tableName source target =
     (let sourceMap = foreignKeysToMap source;
          targetMap = foreignKeysToMap target in
      for_range rank sourceMap (\<lambda>name srcFK.
        if map_of targetMap name = None then
          [\<lparr>Type = DiffRemoved, Category = DiffCategoryForeignKey,
            ObjectName = tableName @ ''.'' @ name, PropertyName = '''', SourceValue = '''',
            TargetValue = '''',
            Description = ''Foreign key ['' @ name @ ''] missing in target'',
            MigrationSQL = ForeignKey_GenerateSQL srcFK @ '';''\<rparr>]
        else [])
      @ for_range rank targetMap (\<lambda>name tgtFK.
        if map_of sourceMap name = None then
          [\<lparr>Type = DiffAdded, Category = DiffCategoryForeignKey,
            ObjectName = tableName @ ''.'' @ name, PropertyName = '''', SourceValue = '''',
            TargetValue = '''',
            Description = ''Foreign key ['' @ name @ ''] exists only in target'',
            MigrationSQL = ''ALTER TABLE '' @ tableName @ '' DROP CONSTRAINT ['' @ name @ ''];''\<rparr>]
        else []))"

definition compareCheckConstraints ::
  "range_order \<Rightarrow> string \<Rightarrow> CheckConstraint list \<Rightarrow> CheckConstraint list \<Rightarrow> Difference list" where
  "compareCheckConstraints rank tableName source target =
     (let sourceMap = checkConstraintsToMap source;
          targetMap = checkConstraintsToMap target in
      for_range rank sourceMap (\<lambda>name srcCC.
        if map_of targetMap name = None then
          [\<lparr>Type = DiffRemoved, Category = DiffCategoryConstraint,
            ObjectName = tableName @ ''.'' @ name, PropertyName = '''', SourceValue = '''',
            TargetValue = '''',
            Description = ''Check constraint ['' @ name @ ''] missing in target'',
            MigrationSQL = CheckConstraint_GenerateSQL srcCC @ '';''\<rparr>]
        else [])
      @ for_range rank targetMap (\<lambda>name tgtCC.
        if map_of sourceMap name = None then
          [\<lparr>Type = DiffAdded, Category = DiffCategoryConstraint,
            ObjectName = tableName @ ''.'' @ name, PropertyName = '''', SourceValue = '''',
            TargetValue = '''',
            Description = ''Check constraint ['' @ name @ ''] exists only in target'',
            MigrationSQL = ''ALTER TABLE '' @ tableName @ '' DROP CONSTRAINT ['' @ name @ ''];''\<rparr>]
        else []))"

fun comparePrimaryKeys :: "string \<Rightarrow> Index option \<Rightarrow> Index option \<Rightarrow> Difference list" where
  "comparePrimaryKeys tableName None None = []"
| "comparePrimaryKeys tableName None (Some target) =
     [\<lparr>Type = DiffAdded, Category = DiffCategoryConstraint, ObjectName = tableName @ ''.PK'',
       PropertyName = '''', SourceValue = '''', TargetValue = '''',
       Description = ''Primary key exists only in target'', MigrationSQL = ''''\<rparr>]"
| "comparePrimaryKeys tableName (Some source) None =
     [\<lparr>Type = DiffRemoved, Category = DiffCategoryConstraint, ObjectName = tableName @ ''.PK'',
       PropertyName = '''', SourceValue = '''', TargetValue = '''',
       Description = ''Primary key missing in target'', MigrationSQL = ''''\<rparr>]"
| "comparePrimaryKeys tableName (Some source) (Some target) =
     (let srcCols = indexColumnsToString (idx_Columns source);
          tgtCols = indexColumnsToString (idx_Columns target) in
      if srcCols \<noteq> tgtCols then
        [\<lparr>Type = DiffModified, Category = DiffCategoryConstraint,
          ObjectName = tableName @ ''.'' @ idx_Name source, PropertyName = ''Columns'',
          SourceValue = srcCols, TargetValue = tgtCols,
          Description = ''Primary key columns differ: ['' @ srcCols @ ''] vs ['' @ tgtCols @ '']'',
          MigrationSQL = ''''\<rparr>]
      else [])"

subsection \<open>Tables\<close>

definition compareTableStructure ::
  "SchemaComparator \<Rightarrow> range_order \<Rightarrow> Table \<Rightarrow> Table \<Rightarrow> Difference list" where
  "compareTableStructure c rank source target =
     (let tableName = formatTableName source in
      compareColumns c rank tableName (tbl_Columns source) (tbl_Columns target)
      @ (if IncludeIndexes (options c)
           then compareIndexes rank tableName (tbl_Indexes source) (tbl_Indexes target) else [])
      @ (if IncludeForeignKeys (options c)
           then compareForeignKeys rank tableName (tbl_ForeignKeys source) (tbl_ForeignKeys target)
           else [])
      @ (if IncludeConstraints (options c)
           then compareCheckConstraints rank tableName (tbl_CheckConstraints source)
                  (tbl_CheckConstraints target)
           else [])
      @ comparePrimaryKeys tableName (tbl_PrimaryKey source) (tbl_PrimaryKey target))"

definition compareTables ::
  "SchemaComparator \<Rightarrow> range_order \<Rightarrow> Table list \<Rightarrow> Table list \<Rightarrow> Difference list" where
  "compareTables c rank source target =
     (let sourceMap = tablesToMap source;
          targetMap = tablesToMap target in
      for_range rank sourceMap (\<lambda>name srcTable.
        if map_of targetMap name = None then
          [\<lparr>Type = DiffRemoved, Category = DiffCategoryTable, ObjectName = name,
            PropertyName = '''', SourceValue = '''', TargetValue = '''',
            Description = ''Table ['' @ name @ ''] exists in source but not in target'',
            MigrationSQL = ''CREATE TABLE '' @ name @ '' ('' @ nl
              @ ''    -- Copy structure from source'' @ nl @ '')''\<rparr>]
        else [])
      @ for_range rank targetMap (\<lambda>name tgtTable.
        if map_of sourceMap name = None then
          [\<lparr>Type = DiffAdded, Category = DiffCategoryTable, ObjectName = name,
            PropertyName = '''', SourceValue = '''', TargetValue = '''',
            Description = ''Table ['' @ name @ ''] exists in target but not in source'',
            MigrationSQL = ''DROP TABLE '' @ formatTableName tgtTable @ '';''\<rparr>]
        else [])
      @ for_range rank sourceMap (\<lambda>name srcTable.
        case map_of targetMap name of
          Some tgtTable \<Rightarrow> compareTableStructure c rank srcTable tgtTable
        | None \<Rightarrow> []))"

subsection \<open>Views, procedures, functions, triggers\<close>

definition compareViews ::
  "SchemaComparator \<Rightarrow> range_order \<Rightarrow> View list \<Rightarrow> View list \<Rightarrow> Difference list" where
  "compareViews c rank source target =
     (let sourceMap = viewsToMap source;
          targetMap = viewsToMap target in
      for_range rank sourceMap (\<lambda>name srcView.
        if map_of targetMap name = None then
          [\<lparr>Type = DiffRemoved, Category = DiffCategoryView, ObjectName = name,
            PropertyName = '''', SourceValue = '''', TargetValue = '''',
            Description = ''View ['' @ name @ ''] missing in target'', MigrationSQL = ''''\<rparr>]
        else [])
      @ for_range rank targetMap (\<lambda>name tgtView.
        if map_of sourceMap name = None then
          [\<lparr>Type = DiffAdded, Category = DiffCategoryView, ObjectName = name,
            PropertyName = '''', SourceValue = '''', TargetValue = '''',
            Description = ''View ['' @ name @ ''] exists only in target'', MigrationSQL = ''''\<rparr>]
        else [])
      @ for_range rank sourceMap (\<lambda>name srcView.
        case map_of targetMap name of
          Some tgtView \<Rightarrow>
            if \<not> definitionsEqual c (view_Definition srcView) (view_Definition tgtView) then
              [\<lparr>Type = DiffModified, Category = DiffCategoryView, ObjectName = name,
                PropertyName = '''', SourceValue = '''', TargetValue = '''',
                Description = ''View definition differs'', MigrationSQL = ''''\<rparr>]
            else []
        | None \<Rightarrow> []))"

definition compareProcedures ::
  "SchemaComparator \<Rightarrow> range_order \<Rightarrow> StoredProcedure list \<Rightarrow> StoredProcedure list
    \<Rightarrow> Difference list" where
  "compareProcedures c rank source target =
     (let sourceMap = proceduresToMap source;
          targetMap = proceduresToMap target in
      for_range rank sourceMap (\<lambda>name srcProc.
        if map_of targetMap name = None then
          [\<lparr>Type = DiffRemoved, Category = DiffCategoryProcedure, ObjectName = name,
            PropertyName = '''', SourceValue = '''', TargetValue = '''',
            Description = ''Procedure ['' @ name @ ''] missing in target'', MigrationSQL = ''''\<rparr>]
        else [])
      @ for_range rank targetMap (\<lambda>name tgtProc.
        if map_of sourceMap name = None then
          [\<lparr>Type = DiffAdded, Category = DiffCategoryProcedure, ObjectName = name,
            PropertyName = '''', SourceValue = '''', TargetValue = '''',
            Description = ''Procedure ['' @ name @ ''] exists only in target'',
            MigrationSQL = ''''\<rparr>]
        else [])
      @ for_range rank sourceMap (\<lambda>name srcProc.
        case map_of targetMap name of
          Some tgtProc \<Rightarrow>
            if \<not> definitionsEqual c (sp_Definition srcProc) (sp_Definition tgtProc) then
              [\<lparr>Type = DiffModified, Category = DiffCategoryProcedure, ObjectName = name,
                PropertyName = '''', SourceValue = '''', TargetValue = '''',
                Description = ''Procedure definition differs'', MigrationSQL = ''''\<rparr>]
            else []
        | None \<Rightarrow> []))"

definition compareFunctions ::
  "SchemaComparator \<Rightarrow> range_order \<Rightarrow> Function list \<Rightarrow> Function list \<Rightarrow> Difference list" where
  "compareFunctions c rank source target =
     (let sourceMap = functionsToMap source;
          targetMap = functionsToMap target in
      for_range rank sourceMap (\<lambda>name srcFunc.
        if map_of targetMap name = None then
          [\<lparr>Type = DiffRemoved, Category = DiffCategoryFunction, ObjectName = name,
            PropertyName = '''', SourceValue = '''', TargetValue = '''',
            Description = ''Function ['' @ name @ ''] missing in target'', MigrationSQL = ''''\<rparr>]
        else [])
      @ for_range rank targetMap (\<lambda>name tgtFunc.
        if map_of sourceMap name = None then
          [\<lparr>Type = DiffAdded, Category = DiffCategoryFunction, ObjectName = name,
            PropertyName = '''', SourceValue = '''', TargetValue = '''',
            Description = ''Function ['' @ name @ ''] exists only in target'',
            MigrationSQL = ''''\<rparr>]
        else [])
      @ for_range rank sourceMap (\<lambda>name srcFunc.
        case map_of targetMap name of
          Some tgtFunc \<Rightarrow>
            if \<not> definitionsEqual c (fn_Definition srcFunc) (fn_Definition tgtFunc) then
              [\<lparr>Type = DiffModified, Category = DiffCategoryFunction, ObjectName = name,
                PropertyName = '''', SourceValue = '''', TargetValue = '''',
                Description = ''Function definition differs'', MigrationSQL = ''''\<rparr>]
            else []
        | None \<Rightarrow> []))"

definition compareTriggers ::
  "SchemaComparator \<Rightarrow> range_order \<Rightarrow> Trigger list \<Rightarrow> Trigger list \<Rightarrow> Difference list" where
  "compareTriggers c rank source target =
     (let sourceMap = triggersToMap source;
          targetMap = triggersToMap target in
      for_range rank sourceMap (\<lambda>name srcTrig.
        if map_of targetMap name = None then
          [\<lparr>Type = DiffRemoved, Category = DiffCategoryTrigger, ObjectName = name,
            PropertyName = '''', SourceValue = '''', TargetValue = '''',
            Description = ''Trigger ['' @ name @ ''] missing in target'', MigrationSQL = ''''\<rparr>]
        else [])
      @ for_range rank targetMap (\<lambda>name tgtTrig.
        if map_of sourceMap name = None then
          [\<lparr>Type = DiffAdded, Category = DiffCategoryTrigger, ObjectName = name,
            PropertyName = '''', SourceValue = '''', TargetValue = '''',
            Description = ''Trigger ['' @ name @ ''] exists only in target'',
            MigrationSQL = ''''\<rparr>]
        else [])
      @ for_range rank sourceMap (\<lambda>name srcTrig.
        case map_of targetMap name of
          Some tgtTrig \<Rightarrow>
            if \<not> definitionsEqual c (trg_Definition srcTrig) (trg_Definition tgtTrig) then
              [\<lparr>Type = DiffModified, Category = DiffCategoryTrigger, ObjectName = name,
                PropertyName = '''', SourceValue = '''', TargetValue = '''',
                Description = ''Trigger definition differs'', MigrationSQL = ''''\<rparr>]
            else []
        | None \<Rightarrow> []))"

subsection \<open>Compare\<close>

definition compare_differences ::
  "SchemaComparator \<Rightarrow> range_order \<Rightarrow> DatabaseSchema \<Rightarrow> DatabaseSchema \<Rightarrow> Difference list" where
  "compare_differences c rank source target =
     (if IncludeTables (options c) then compareTables c rank (Tables source) (Tables target)
      else [])
     @ (if IncludeViews (options c) then compareViews c rank (Views source) (Views target)
        else [])
     @ (if IncludeProcedures (options c)
          then compareProcedures c rank (StoredProcedures source) (StoredProcedures target)
        else [])
     @ (if IncludeFunctions (options c)
          then compareFunctions c rank (Functions source) (Functions target)
        else [])
     @ (if IncludeTriggers (options c)
          then compareTriggers c rank (Triggers source) (Triggers target)
        else [])"

definition Compare ::
  "SchemaComparator \<Rightarrow> range_order \<Rightarrow> DatabaseSchema \<Rightarrow> DatabaseSchema \<Rightarrow> DiffResult" where
  "Compare c rank source target =
     CalculateSummary
       \<lparr>SourceDatabase = DatabaseName source, TargetDatabase = DatabaseName target,
        Differences = compare_differences c rank source target,
        Summary = empty_summary\<rparr>"

text \<open>The categories that the comparison of tables can produce.\<close>

definition table_categories :: "DiffCategory set" where
  "table_categories =
     {DiffCategoryTable, DiffCategoryColumn, DiffCategoryIndex, DiffCategoryForeignKey,
      DiffCategoryConstraint}"

section \<open>The common shape of the comparison routines\<close>

text \<open>
  Every routine that matches two collections by name is made of the same loops: one over the
  source map for the names missing in the target, one over the target map for the names
  missing in the source, and (but for foreign keys and check constraints) one over the source
  map for the names present in both. \<open>compare_by_name\<close> is that shape, with the three loop
  bodies as parameters; the routines are shown below to be instances of it.
\<close>

definition compare_by_name ::
  "range_order \<Rightarrow> ('a \<Rightarrow> string) \<Rightarrow> 'a list \<Rightarrow> 'a list \<Rightarrow> (string \<Rightarrow> 'a \<Rightarrow> Difference list)
    \<Rightarrow> (string \<Rightarrow> 'a \<Rightarrow> Difference list) \<Rightarrow> (string \<Rightarrow> 'a \<Rightarrow> 'a \<Rightarrow> Difference list)
    \<Rightarrow> Difference list" where
  "compare_by_name rank key source target removed added both =
     (let sourceMap = fold (\<lambda>x m. AList.update (key x) x m) source [];
          targetMap = fold (\<lambda>x m. AList.update (key x) x m) target [] in
      for_range rank sourceMap (\<lambda>name src.
        if map_of targetMap name = None then removed name src else [])
      @ for_range rank targetMap (\<lambda>name tgt.
        if map_of sourceMap name = None then added name tgt else [])
      @ for_range rank sourceMap (\<lambda>name src.
        case map_of targetMap name of Some tgt \<Rightarrow> both name src tgt | None \<Rightarrow> []))"

section \<open>Definitions that differ only in whitespace\<close>

text \<open>
  The words of a text: its maximal runs of bytes outside the class \<open>\s\<close>. Two texts with the
  same words differ only in their runs of \<open>\s\<close> bytes (how long each run is, which \<open>\s\<close>
  bytes it is made of, and whether there is one at the start and at the end).
\<close>

function words_of :: "string \<Rightarrow> string list" where
  "words_of [] = []"
| "words_of (ch # cs) =
     (if is_regex_space ch then words_of (dropWhile is_regex_space cs)
      else (ch # takeWhile (\<lambda>x. \<not> is_regex_space x) cs)
             # words_of (dropWhile (\<lambda>x. \<not> is_regex_space x) cs))"
  by pat_completeness auto
termination
  by (relation "measure length") (auto simp: length_dropWhile_le less_Suc_eq_le)

text \<open>The single space that a leading run of \<open>\s\<close> bytes is replaced by.\<close>

definition leading_space :: "string \<Rightarrow> string" where
  "leading_space s = (if s \<noteq> [] \<and> is_regex_space (hd s) then '' '' else [])"

section \<open>One object more or less\<close>

text \<open>
  The vocabulary of the kind-inversion property. An \<open>object_ref\<close> points at one object of a
  schema by its position: a table, a column, index, foreign key or check constraint of a
  table, the primary key of a table, a view, a procedure, a function or a trigger.
  \<open>without ref A\<close> is the schema \<open>A\<close> with that object taken out, and nothing else changed;
  \<open>compared_object c ref A\<close> says that the object is there and that the options of \<open>c\<close> have
  objects of its kind compared; \<open>object_category\<close> and \<open>object_name\<close> are the category and the
  qualified name under which the comparator reports it. \<open>unique_names\<close> is the invariant of
  the data model: the keys are distinct in every collection.
\<close>

datatype object_ref =
    TableRef nat
  | ColumnRef nat nat
  | IndexRef nat nat
  | ForeignKeyRef nat nat
  | CheckConstraintRef nat nat
  | PrimaryKeyRef nat
  | ViewRef nat
  | ProcedureRef nat
  | FunctionRef nat
  | TriggerRef nat

definition remove_nth :: "nat \<Rightarrow> 'a list \<Rightarrow> 'a list" where
  "remove_nth i xs = take i xs @ drop (Suc i) xs"

definition map_table :: "nat \<Rightarrow> (Table \<Rightarrow> Table) \<Rightarrow> DatabaseSchema \<Rightarrow> DatabaseSchema" where
  "map_table i f A = A\<lparr>Tables := (Tables A)[i := f (Tables A ! i)]\<rparr>"

fun without :: "object_ref \<Rightarrow> DatabaseSchema \<Rightarrow> DatabaseSchema" where
  "without (TableRef i) A = A\<lparr>Tables := remove_nth i (Tables A)\<rparr>"
| "without (ColumnRef i j) A =
     map_table i (\<lambda>t. t\<lparr>tbl_Columns := remove_nth j (tbl_Columns t)\<rparr>) A"
| "without (IndexRef i j) A =
     map_table i (\<lambda>t. t\<lparr>tbl_Indexes := remove_nth j (tbl_Indexes t)\<rparr>) A"
| "without (ForeignKeyRef i j) A =
     map_table i (\<lambda>t. t\<lparr>tbl_ForeignKeys := remove_nth j (tbl_ForeignKeys t)\<rparr>) A"
| "without (CheckConstraintRef i j) A =
     map_table i (\<lambda>t. t\<lparr>tbl_CheckConstraints := remove_nth j (tbl_CheckConstraints t)\<rparr>) A"
| "without (PrimaryKeyRef i) A = map_table i (\<lambda>t. t\<lparr>tbl_PrimaryKey := None\<rparr>) A"
| "without (ViewRef i) A = A\<lparr>Views := remove_nth i (Views A)\<rparr>"
| "without (ProcedureRef i) A = A\<lparr>StoredProcedures := remove_nth i (StoredProcedures A)\<rparr>"
| "without (FunctionRef i) A = A\<lparr>Functions := remove_nth i (Functions A)\<rparr>"
| "without (TriggerRef i) A = A\<lparr>Triggers := remove_nth i (Triggers A)\<rparr>"

fun compared_object :: "SchemaComparator \<Rightarrow> object_ref \<Rightarrow> DatabaseSchema \<Rightarrow> bool" where
  "compared_object c (TableRef i) A \<longleftrightarrow> IncludeTables (options c) \<and> i < length (Tables A)"
| "compared_object c (ColumnRef i j) A \<longleftrightarrow>
     IncludeTables (options c) \<and> i < length (Tables A) \<and> j < length (tbl_Columns (Tables A ! i))"
| "compared_object c (IndexRef i j) A \<longleftrightarrow>
     IncludeTables (options c) \<and> IncludeIndexes (options c) \<and> i < length (Tables A)
     \<and> j < length (tbl_Indexes (Tables A ! i))"
| "compared_object c (ForeignKeyRef i j) A \<longleftrightarrow>
     IncludeTables (options c) \<and> IncludeForeignKeys (options c) \<and> i < length (Tables A)
     \<and> j < length (tbl_ForeignKeys (Tables A ! i))"
| "compared_object c (CheckConstraintRef i j) A \<longleftrightarrow>
     IncludeTables (options c) \<and> IncludeConstraints (options c) \<and> i < length (Tables A)
     \<and> j < length (tbl_CheckConstraints (Tables A ! i))"
| "compared_object c (PrimaryKeyRef i) A \<longleftrightarrow>
     IncludeTables (options c) \<and> i < length (Tables A) \<and> tbl_PrimaryKey (Tables A ! i) \<noteq> None"
| "compared_object c (ViewRef i) A \<longleftrightarrow> IncludeViews (options c) \<and> i < length (Views A)"
| "compared_object c (ProcedureRef i) A \<longleftrightarrow>
     IncludeProcedures (options c) \<and> i < length (StoredProcedures A)"
| "compared_object c (FunctionRef i) A \<longleftrightarrow> IncludeFunctions (options c) \<and> i < length (Functions A)"
| "compared_object c (TriggerRef i) A \<longleftrightarrow> IncludeTriggers (options c) \<and> i < length (Triggers A)"

fun object_category :: "object_ref \<Rightarrow> DiffCategory" where
  "object_category (TableRef i) = DiffCategoryTable"
| "object_category (ColumnRef i j) = DiffCategoryColumn"
| "object_category (IndexRef i j) = DiffCategoryIndex"
| "object_category (ForeignKeyRef i j) = DiffCategoryForeignKey"
| "object_category (CheckConstraintRef i j) = DiffCategoryConstraint"
| "object_category (PrimaryKeyRef i) = DiffCategoryConstraint"
| "object_category (ViewRef i) = DiffCategoryView"
| "object_category (ProcedureRef i) = DiffCategoryProcedure"
| "object_category (FunctionRef i) = DiffCategoryFunction"
| "object_category (TriggerRef i) = DiffCategoryTrigger"

fun object_name :: "object_ref \<Rightarrow> DatabaseSchema \<Rightarrow> string" where
  "object_name (TableRef i) A = formatTableName (Tables A ! i)"
| "object_name (ColumnRef i j) A =
     formatTableName (Tables A ! i) @ ''.'' @ col_Name (tbl_Columns (Tables A ! i) ! j)"
| "object_name (IndexRef i j) A =
     formatTableName (Tables A ! i) @ ''.'' @ idx_Name (tbl_Indexes (Tables A ! i) ! j)"
| "object_name (ForeignKeyRef i j) A =
     formatTableName (Tables A ! i) @ ''.'' @ fk_Name (tbl_ForeignKeys (Tables A ! i) ! j)"
| "object_name (CheckConstraintRef i j) A =
     formatTableName (Tables A ! i) @ ''.'' @ cc_Name (tbl_CheckConstraints (Tables A ! i) ! j)"
| "object_name (PrimaryKeyRef i) A = formatTableName (Tables A ! i) @ ''.PK''"
| "object_name (ViewRef i) A = view_key (Views A ! i)"
| "object_name (ProcedureRef i) A = procedure_key (StoredProcedures A ! i)"
| "object_name (FunctionRef i) A = function_key (Functions A ! i)"
| "object_name (TriggerRef i) A = trigger_key (Triggers A ! i)"

definition unique_names :: "DatabaseSchema \<Rightarrow> bool" where
  "unique_names A \<longleftrightarrow>
     distinct (map formatTableName (Tables A))
     \<and> list_all (\<lambda>t. distinct (map col_Name (tbl_Columns t))
                    \<and> distinct (map idx_Name (tbl_Indexes t))
                    \<and> distinct (map fk_Name (tbl_ForeignKeys t))
                    \<and> distinct (map cc_Name (tbl_CheckConstraints t))) (Tables A)
     \<and> distinct (map view_key (Views A))
     \<and> distinct (map procedure_key (StoredProcedures A))
     \<and> distinct (map function_key (Functions A))
     \<and> distinct (map trigger_key (Triggers A))"

text \<open>
  \<open>inverse_pair cat name removed added\<close>: each of the two lists holds exactly one difference,
  \<open>Removed\<close> in the first and \<open>Added\<close> in the second, both of category \<open>cat\<close> and for the
  object \<open>name\<close>, and the two descriptions are not the same text.
\<close>

definition inverse_pair ::
  "DiffCategory \<Rightarrow> string \<Rightarrow> Difference list \<Rightarrow> Difference list \<Rightarrow> bool" where
  "inverse_pair cat name removed added \<longleftrightarrow>
     map Type removed = [DiffRemoved] \<and> map Type added = [DiffAdded]
     \<and> map Category removed = [cat] \<and> map Category added = [cat]
     \<and> map ObjectName removed = [name] \<and> map ObjectName added = [name]
     \<and> map Description removed \<noteq> map Description added"

section \<open>Differences of a known kind\<close>

text \<open>The kinds that \<open>CalculateSummary\<close> and \<open>Difference.String\<close> know.\<close>

definition known_kind :: "Difference \<Rightarrow> bool" where
  "known_kind d \<longleftrightarrow> Type d = DiffAdded \<or> Type d = DiffRemoved \<or> Type d = DiffModified"

section \<open>Example inputs\<close>

text \<open>A comparator with the default options, and the iteration order "as stored".\<close>

definition ex_comparator :: SchemaComparator where
  "ex_comparator = NewSchemaComparator None"

definition insertion_order :: range_order where
  "insertion_order = (\<lambda>name. 0)"

definition ex_column :: Column where
  "ex_column =
     \<lparr>col_Name = ''Email'', col_OrdinalPosition = 1, col_DataType = ''nvarchar'',
      col_MaxLength = 100, col_Precision = 0, col_Scale = 0, col_IsNullable = False,
      col_HasDefault = False, col_DefaultValue = [], col_IsIdentity = False,
      col_IdentitySeed = 0, col_IdentityIncrement = 0, col_IsComputed = False,
      col_ComputedDefinition = [], col_Collation = ''Latin1_General_CI_AS''\<rparr>"

definition ex_id_column :: Column where
  "ex_id_column =
     \<lparr>col_Name = ''Id'', col_OrdinalPosition = 0, col_DataType = ''int'',
      col_MaxLength = 4, col_Precision = 10, col_Scale = 0, col_IsNullable = False,
      col_HasDefault = False, col_DefaultValue = [], col_IsIdentity = True,
      col_IdentitySeed = 1, col_IdentityIncrement = 1, col_IsComputed = False,
      col_ComputedDefinition = [], col_Collation = []\<rparr>"

definition ex_table :: Table where
  "ex_table =
     \<lparr>tbl_SchemaName = ''dbo'', tbl_Name = ''Users'', tbl_Columns = [ex_id_column, ex_column],
      tbl_PrimaryKey = None, tbl_Indexes = [], tbl_ForeignKeys = [], tbl_CheckConstraints = []\<rparr>"

definition ex_view :: View where
  "ex_view = \<lparr>view_SchemaName = ''dbo'', view_Name = ''V'',
     view_Definition = ''CREATE VIEW V AS SELECT 1''\<rparr>"

definition ex_schema :: DatabaseSchema where
  "ex_schema =
     \<lparr>DatabaseName = ''shop'', Schemas = [], Tables = [ex_table], Views = [ex_view],
      StoredProcedures = [], Functions = [], Triggers = []\<rparr>"




text \<open>Two tables, each with one column and one index; \<open>changed\<close> flips the nullability of
  the column and the uniqueness of the index.\<close>

definition ex_index :: Index where
  "ex_index =
     \<lparr>idx_Name = ''IX_Email'', idx_SchemaName = ''dbo'', idx_TableName = ''Users'',
      idx_IsPrimaryKey = False, idx_IsUnique = False, idx_IsClustered = False,
      idx_IsDisabled = False, idx_FilterDefinition = [],
      idx_Columns = [\<lparr>ic_Name = ''Email'', ic_Position = 1, ic_IsDescending = False,
                       ic_IsIncluded = False\<rparr>]\<rparr>"

definition ex_indexed_table :: "string \<Rightarrow> bool \<Rightarrow> Table" where
  "ex_indexed_table name changed =
     \<lparr>tbl_SchemaName = ''dbo'', tbl_Name = name,
      tbl_Columns = [ex_column\<lparr>col_IsNullable := changed\<rparr>],
      tbl_PrimaryKey = None, tbl_Indexes = [ex_index\<lparr>idx_IsUnique := changed\<rparr>],
      tbl_ForeignKeys = [], tbl_CheckConstraints = []\<rparr>"

definition ex_two_tables :: "string \<Rightarrow> bool \<Rightarrow> DatabaseSchema" where
  "ex_two_tables name changed =
     \<lparr>DatabaseName = name, Schemas = [],
      Tables = [ex_indexed_table ''Users'' changed, ex_indexed_table ''Orders'' changed],
      Views = [], StoredProcedures = [], Functions = [], Triggers = []\<rparr>"

definition ex_lenient_comparator :: SchemaComparator where
  "ex_lenient_comparator = \<lparr>options = DefaultDiffOptions\<lparr>IgnoreCollation := True\<rparr>\<rparr>"

text \<open>A result with one difference of each known kind, and one with a difference of another kind.\<close>

definition ex_difference :: "DiffType \<Rightarrow> Difference" where
  "ex_difference kind =
     \<lparr>Type = kind, Category = DiffCategoryTable, ObjectName = ''[dbo].[Users]'',
      PropertyName = [], SourceValue = [], TargetValue = [], Description = ''Table [dbo].[Users]'',
      MigrationSQL = []\<rparr>"

definition ex_result :: "Difference list \<Rightarrow> DiffResult" where
  "ex_result ds =
     \<lparr>SourceDatabase = ''a'', TargetDatabase = ''b'', Differences = ds, Summary = empty_summary\<rparr>"

lemmas ex_defs = ex_schema_def ex_table_def ex_column_def ex_id_column_def ex_view_def
  ex_comparator_def NewSchemaComparator_def DefaultDiffOptions_def

section \<open>The loop of \<open>CalculateSummary\<close>\<close>

lemma kinds_distinct [simp]:
  "DiffAdded \<noteq> DiffRemoved" "DiffAdded \<noteq> DiffModified" "DiffRemoved \<noteq> DiffModified"
  "DiffRemoved \<noteq> DiffAdded" "DiffModified \<noteq> DiffAdded" "DiffModified \<noteq> DiffRemoved"
  by (simp_all add: DiffAdded_def DiffRemoved_def DiffModified_def)

lemma summary_step_total:
  "TotalDifferences (summary_step d s) = TotalDifferences s + 1"
  by (simp add: summary_step_def Let_def)

lemma summary_step_kinds:
  "Added (summary_step d s) + Removed (summary_step d s) + Modified (summary_step d s)
     = Added s + Removed s + Modified s + (if known_kind d then 1 else 0)"
  by (auto simp: summary_step_def Let_def known_kind_def)

lemma fold_summary_total:
  "TotalDifferences (fold summary_step ds s) = TotalDifferences s + int (length ds)"
  by (induction ds arbitrary: s) (simp_all add: summary_step_total)

lemma fold_summary_kinds:
  "Added (fold summary_step ds s) + Removed (fold summary_step ds s)
       + Modified (fold summary_step ds s)
     = Added s + Removed s + Modified s + int (length (filter known_kind ds))"
  by (induction ds arbitrary: s) (simp_all add: summary_step_kinds)

lemma Differences_CalculateSummary [simp]:
  "Differences (CalculateSummary r) = Differences r"
  by (simp add: CalculateSummary_def)

lemma Differences_Compare [simp]:
  "Differences (Compare c rank source target) = compare_differences c rank source target"
  by (simp add: Compare_def)

section \<open>Maps built by repeated assignment, and loops over them\<close>

lemma build_distinct:
  "distinct (map fst m) \<Longrightarrow> distinct (map fst (fold (\<lambda>x. AList.update (key x) x) xs m))"
  by (induction xs arbitrary: m) (simp_all add: distinct_update)

lemma build_keys:
  "fst ` set (fold (\<lambda>x. AList.update (key x) x) xs m) = fst ` set m \<union> key ` set xs"
proof (induction xs arbitrary: m)
  case Nil
  then show ?case by simp
next
  case (Cons x xs)
  show ?case
    by (simp add: Cons.IH dom_update)
qed

lemma build_distinct_keys:
  "distinct (map fst m @ map key xs)
   \<Longrightarrow> fold (\<lambda>x. AList.update (key x) x) xs m = m @ map (\<lambda>x. (key x, x)) xs"
proof (induction xs arbitrary: m)
  case Nil
  then show ?case by simp
next
  case (Cons x xs)
  have "key x \<notin> fst ` set m"
    using Cons.prems by auto
  then have upd: "AList.update (key x) x m = m @ [(key x, x)]"
    by (induction m) auto
  have "distinct (map fst (m @ [(key x, x)]) @ map key xs)"
    using Cons.prems by auto
  then show ?case
    using Cons.IH [of "m @ [(key x, x)]"] by (simp add: upd)
qed

lemma for_range_empty:
  "(\<And>k v. (k, v) \<in> set m \<Longrightarrow> body k v = []) \<Longrightarrow> for_range rank m body = []"
  by (auto simp: for_range_def range_map_def)

lemma set_for_range:
  "set (for_range rank m body) = (\<Union>(k, v) \<in> set m. set (body k v))"
  by (auto simp: for_range_def range_map_def)

lemma concat_map_single:
  "distinct xs \<Longrightarrow> x \<in> set xs \<Longrightarrow> (\<And>y. y \<in> set xs \<Longrightarrow> y \<noteq> x \<Longrightarrow> f y = [])
   \<Longrightarrow> concat (map f xs) = f x"
proof (induction xs)
  case Nil
  then show ?case by simp
next
  case (Cons a xs)
  show ?case
  proof (cases "a = x")
    case True
    then have "\<And>y. y \<in> set xs \<Longrightarrow> f y = []"
      using Cons.prems by auto
    then have "concat (map f xs) = []"
      by simp
    with True show ?thesis by simp
  next
    case False
    then have "f a = []" and "x \<in> set xs"
      using Cons.prems by auto
    then show ?thesis
      using Cons by simp
  qed
qed

lemma for_range_single:
  assumes "distinct (map fst m)" and "(k0, v0) \<in> set m"
    and "\<And>k v. (k, v) \<in> set m \<Longrightarrow> k \<noteq> k0 \<Longrightarrow> body k v = []"
  shows "for_range rank m body = body k0 v0"
proof -
  have d: "distinct (range_map rank m)"
    using assms(1) by (simp add: range_map_def distinct_map)
  have "concat (map (\<lambda>(k, v). body k v) (range_map rank m)) = (\<lambda>(k, v). body k v) (k0, v0)"
  proof (rule concat_map_single [OF d])
    show "(k0, v0) \<in> set (range_map rank m)"
      using assms(2) by (simp add: range_map_def)
  next
    fix y assume y: "y \<in> set (range_map rank m)" "y \<noteq> (k0, v0)"
    obtain k v where kv: "y = (k, v)" by (cases y)
    have in_m: "(k, v) \<in> set m" using y kv by (simp add: range_map_def)
    have "k \<noteq> k0"
    proof
      assume "k = k0"
      then have "v = v0"
        using assms(1,2) in_m by (meson eq_key_imp_eq_value)
      with \<open>k = k0\<close> kv y show False by simp
    qed
    then show "(case y of (k, v) \<Rightarrow> body k v) = []"
      using assms(3) in_m kv by simp
  qed
  then show ?thesis
    by (simp add: for_range_def)
qed


lemma build_lookup_None:
  "map_of (fold (\<lambda>x. AList.update (key x) x) xs []) k = None \<longleftrightarrow> k \<notin> key ` set xs"
  by (simp add: map_of_eq_None_iff build_keys)

lemma build_lookup_self:
  assumes "(k, v) \<in> set (fold (\<lambda>x. AList.update (key x) x) xs [])"
  shows "map_of (fold (\<lambda>x. AList.update (key x) x) xs []) k = Some v"
  using assms build_distinct [of "[]" key xs] by simp

subsection \<open>The orders of a loop are the permutations of the entries\<close>

lemma range_map_permutes: "mset (range_map rank m) = mset m"
  by (simp add: range_map_def)

lemma position_in_nth:
  assumes "distinct ks" and "i < length ks"
  shows "position_in ks (ks ! i) = i"
proof -
  let ?j = "length (takeWhile (\<lambda>x. x \<noteq> ks ! i) ks)"
  have "i \<le> ?j"
    using assms by (intro length_takeWhile_less_P_nth) (auto simp: nth_eq_iff_index_eq)
  moreover have "?j \<le> i"
  proof (rule ccontr)
    assume "\<not> ?j \<le> i"
    then have "i < ?j" by simp
    then have "(takeWhile (\<lambda>x. x \<noteq> ks ! i) ks) ! i \<in> set (takeWhile (\<lambda>x. x \<noteq> ks ! i) ks)"
      by simp
    moreover have "(takeWhile (\<lambda>x. x \<noteq> ks ! i) ks) ! i = ks ! i"
      using \<open>i < ?j\<close> by (rule takeWhile_nth)
    ultimately show False
      by (auto dest: set_takeWhileD)
  qed
  ultimately show ?thesis
    by (simp add: position_in_def)
qed

lemma map_position_in: "distinct ks \<Longrightarrow> map (position_in ks) ks = [0..<length ks]"
proof (rule nth_equalityI)
  show "length (map (position_in ks) ks) = length [0..<length ks]"
    by simp
next
  fix i assume "distinct ks" and "i < length (map (position_in ks) ks)"
  then show "map (position_in ks) ks ! i = [0..<length ks] ! i"
    by (simp add: position_in_nth)
qed

lemma filter_eq_single: "distinct xs \<Longrightarrow> k \<in> set xs \<Longrightarrow> filter (\<lambda>x. k = x) xs = [k]"
  by (induction xs) (auto simp: filter_empty_conv)

lemma every_order_is_a_rank:
  assumes "distinct (map fst m)" and "mset ys = mset m"
  shows "range_map (position_in (map fst ys)) m = ys"
  unfolding range_map_def
proof (rule properties_for_sort_key [OF assms(2)])
  let ?f = "\<lambda>e. position_in (map fst ys) (fst e)"
  have dk: "distinct (map fst ys)"
    using assms by (metis distinct_map mset_eq_setD mset_map mset_eq_imp_distinct_iff)
  have "map ?f ys = map (position_in (map fst ys)) (map fst ys)"
    by simp
  then have pos: "map ?f ys = [0..<length ys]"
    using map_position_in [OF dk] by (simp add: comp_def)
  then show "sorted (map ?f ys)"
    by simp
  have inj: "inj_on ?f (set ys)"
    using pos by (metis distinct_map distinct_upt)
  have dy: "distinct ys" and dm: "distinct m"
    using dk assms(1) by (auto simp: distinct_map)
  fix k assume k: "k \<in> set ys"
  have "filter (\<lambda>x. ?f k = ?f x) ys = filter (\<lambda>x. k = x) ys"
    using inj k by (intro filter_cong refl) (auto dest: inj_onD)
  moreover have "filter (\<lambda>x. ?f k = ?f x) m = filter (\<lambda>x. k = x) m"
    using inj k mset_eq_setD [OF assms(2)] by (intro filter_cong refl) (auto dest: inj_onD)
  moreover have "filter (\<lambda>x. k = x) ys = [k]" "filter (\<lambda>x. k = x) m = [k]"
    using dy dm k mset_eq_setD [OF assms(2)] by (simp_all add: filter_eq_single)
  ultimately show "filter (\<lambda>x. ?f k = ?f x) ys = filter (\<lambda>x. ?f k = ?f x) m"
    by simp
qed

section \<open>Reflexivity\<close>

lemma compareColumnDetails_refl: "compareColumnDetails c tableName col col = []"
  by (simp add: compareColumnDetails_def)

lemma compareColumns_refl: "compareColumns c rank tableName cols cols = []"
  unfolding compareColumns_def Let_def columnsToMap_def
  by (auto intro!: for_range_empty simp: build_lookup_self compareColumnDetails_refl
      dest: build_lookup_self)


lemma compareIndexDetails_refl: "compareIndexDetails tableName idx idx = []"
  by (simp add: compareIndexDetails_def)

lemma compareIndexes_refl: "compareIndexes rank tableName xs xs = []"
  unfolding compareIndexes_def Let_def indexesToMap_def
  by (auto intro!: for_range_empty simp: compareIndexDetails_refl dest: build_lookup_self)

lemma compareForeignKeys_refl: "compareForeignKeys rank tableName xs xs = []"
  unfolding compareForeignKeys_def Let_def foreignKeysToMap_def
  by (auto intro!: for_range_empty dest: build_lookup_self)

lemma compareCheckConstraints_refl: "compareCheckConstraints rank tableName xs xs = []"
  unfolding compareCheckConstraints_def Let_def checkConstraintsToMap_def
  by (auto intro!: for_range_empty dest: build_lookup_self)

lemma comparePrimaryKeys_refl: "comparePrimaryKeys tableName pk pk = []"
  by (cases pk) simp_all

lemma compareTableStructure_refl: "compareTableStructure c rank t t = []"
  by (simp add: compareTableStructure_def Let_def compareColumns_refl compareIndexes_refl
      compareForeignKeys_refl compareCheckConstraints_refl comparePrimaryKeys_refl)

lemma compareTables_refl: "compareTables c rank ts ts = []"
  unfolding compareTables_def Let_def tablesToMap_def
  by (auto intro!: for_range_empty simp: compareTableStructure_refl dest: build_lookup_self)

lemma definitionsEqual_refl: "definitionsEqual c s s"
  by (simp add: definitionsEqual_def)

lemma compareViews_refl: "compareViews c rank xs xs = []"
  unfolding compareViews_def Let_def viewsToMap_def
  by (auto intro!: for_range_empty simp: definitionsEqual_refl dest: build_lookup_self)

lemma compareProcedures_refl: "compareProcedures c rank xs xs = []"
  unfolding compareProcedures_def Let_def proceduresToMap_def
  by (auto intro!: for_range_empty simp: definitionsEqual_refl dest: build_lookup_self)

lemma compareFunctions_refl: "compareFunctions c rank xs xs = []"
  unfolding compareFunctions_def Let_def functionsToMap_def
  by (auto intro!: for_range_empty simp: definitionsEqual_refl dest: build_lookup_self)

lemma compareTriggers_refl: "compareTriggers c rank xs xs = []"
  unfolding compareTriggers_def Let_def triggersToMap_def
  by (auto intro!: for_range_empty simp: definitionsEqual_refl dest: build_lookup_self)

text \<open>
  Claim C3. Comparing a schema with itself gives no difference, whatever the options and
  whatever the iteration order of the maps: the difference list is empty and the summary
  counts nothing in any category.
\<close>

theorem Compare_reflexive:
  "Differences (Compare c rank S S) = [] \<and> Summary (Compare c rank S S) = empty_summary"
  by (simp add: Compare_def CalculateSummary_def compare_differences_def compareTables_refl
      compareViews_refl compareProcedures_refl compareFunctions_refl compareTriggers_refl)

section \<open>Categories and migration fragments of the differences\<close>

lemma compareColumnDetails_category:
  "d \<in> set (compareColumnDetails c tableName src tgt) \<Longrightarrow> Category d = DiffCategoryColumn"
  by (auto simp: compareColumnDetails_def Let_def split: if_splits)

lemma compareColumns_category:
  "d \<in> set (compareColumns c rank tableName src tgt) \<Longrightarrow> Category d = DiffCategoryColumn"
  by (auto simp: compareColumns_def Let_def set_for_range
      split: if_splits option.splits dest: compareColumnDetails_category)

lemma compareIndexes_category:
  "d \<in> set (compareIndexes rank tableName src tgt) \<Longrightarrow> Category d = DiffCategoryIndex"
  by (auto simp: compareIndexes_def compareIndexDetails_def Let_def set_for_range
      split: if_splits option.splits)

lemma compareForeignKeys_category:
  "d \<in> set (compareForeignKeys rank tableName src tgt) \<Longrightarrow> Category d = DiffCategoryForeignKey"
  by (auto simp: compareForeignKeys_def Let_def set_for_range split: if_splits)

lemma compareCheckConstraints_category:
  "d \<in> set (compareCheckConstraints rank tableName src tgt)
   \<Longrightarrow> Category d = DiffCategoryConstraint"
  by (auto simp: compareCheckConstraints_def Let_def set_for_range split: if_splits)

lemma comparePrimaryKeys_category:
  "d \<in> set (comparePrimaryKeys tableName src tgt) \<Longrightarrow> Category d = DiffCategoryConstraint"
  by (cases src; cases tgt) (auto simp: Let_def split: if_splits)

lemma compareTableStructure_category:
  "d \<in> set (compareTableStructure c rank src tgt) \<Longrightarrow> Category d \<in> table_categories"
  by (auto simp: compareTableStructure_def Let_def table_categories_def split: if_splits
      dest: compareColumns_category compareIndexes_category compareForeignKeys_category
        compareCheckConstraints_category comparePrimaryKeys_category)

lemma compareTables_category:
  "d \<in> set (compareTables c rank src tgt) \<Longrightarrow> Category d \<in> table_categories"
  by (auto simp: compareTables_def Let_def set_for_range split: if_splits option.splits
      dest: compareTableStructure_category) (simp_all add: table_categories_def)

lemma compareViews_fields:
  "d \<in> set (compareViews c rank src tgt)
   \<Longrightarrow> Category d = DiffCategoryView \<and> MigrationSQL d = ''''"
  by (auto simp: compareViews_def Let_def set_for_range split: if_splits option.splits)

lemma compareProcedures_fields:
  "d \<in> set (compareProcedures c rank src tgt)
   \<Longrightarrow> Category d = DiffCategoryProcedure \<and> MigrationSQL d = ''''"
  by (auto simp: compareProcedures_def Let_def set_for_range split: if_splits option.splits)

lemma compareFunctions_fields:
  "d \<in> set (compareFunctions c rank src tgt)
   \<Longrightarrow> Category d = DiffCategoryFunction \<and> MigrationSQL d = ''''"
  by (auto simp: compareFunctions_def Let_def set_for_range split: if_splits option.splits)

lemma compareTriggers_fields:
  "d \<in> set (compareTriggers c rank src tgt)
   \<Longrightarrow> Category d = DiffCategoryTrigger \<and> MigrationSQL d = ''''"
  by (auto simp: compareTriggers_def Let_def set_for_range split: if_splits option.splits)

lemma compare_differences_category:
  assumes "d \<in> set (compare_differences c rank source target)"
  shows "Category d \<noteq> DiffCategorySchema"
  using assms
  by (auto simp: compare_differences_def table_categories_def split: if_splits
      dest: compareTables_category compareViews_fields compareProcedures_fields
        compareFunctions_fields compareTriggers_fields)

text \<open>
  Claim C9. No difference returned by \<open>Compare\<close> has the category \<open>SCHEMA\<close>, and the
  \<open>Schemas\<close> collections of the two inputs have no influence on the result.
\<close>

theorem Compare_never_reports_schema:
  "FilterByCategory (Compare c rank source target) DiffCategorySchema = []
   \<and> Compare c rank (source\<lparr>Schemas := xs\<rparr>) (target\<lparr>Schemas := ys\<rparr>)
       = Compare c rank source target"
proof
  show "FilterByCategory (Compare c rank source target) DiffCategorySchema = []"
    using compare_differences_category [of _ c rank source target]
    by (auto simp: FilterByCategory_def filter_empty_conv)
next
  show "Compare c rank (source\<lparr>Schemas := xs\<rparr>) (target\<lparr>Schemas := ys\<rparr>)
          = Compare c rank source target"
    by (simp add: Compare_def compare_differences_def)
qed

lemma compare_differences_sql:
  assumes "d \<in> set (compare_differences c rank source target)"
    and "Category d \<in> {DiffCategoryView, DiffCategoryProcedure, DiffCategoryFunction,
           DiffCategoryTrigger}"
  shows "MigrationSQL d = ''''"
proof -
  consider "d \<in> set (compareTables c rank (Tables source) (Tables target))"
    | "d \<in> set (compareViews c rank (Views source) (Views target))"
    | "d \<in> set (compareProcedures c rank (StoredProcedures source) (StoredProcedures target))"
    | "d \<in> set (compareFunctions c rank (Functions source) (Functions target))"
    | "d \<in> set (compareTriggers c rank (Triggers source) (Triggers target))"
    using assms(1) by (auto simp: compare_differences_def split: if_splits)
  then show ?thesis
  proof cases
    case 1
    then have "Category d \<in> table_categories"
      by (rule compareTables_category)
    with assms(2) show ?thesis
      by (auto simp: table_categories_def)
  qed (auto dest: compareViews_fields compareProcedures_fields compareFunctions_fields
        compareTriggers_fields)
qed

lemma migration_statements_Nil:
  "(\<And>d. d \<in> set ds \<Longrightarrow> MigrationSQL d = '''') \<Longrightarrow> migration_statements ds = ''''"
  by (simp add: migration_statements_def)

lemma migration_section_banner:
  assumes "cat \<in> {DiffCategoryView, DiffCategoryProcedure, DiffCategoryFunction,
             DiffCategoryTrigger}"
  shows "migration_section (Compare c rank source target) cat
           = (if FilterByCategory (Compare c rank source target) cat = [] then ''''
              else category_banner cat)"
proof -
  have "migration_statements (FilterByCategory (Compare c rank source target) cat) = ''''"
    using assms by (intro migration_statements_Nil compare_differences_sql [of _ c rank source target])
      (auto simp: FilterByCategory_def)
  then show ?thesis
    by (simp add: migration_section_def Let_def)
qed

text \<open>
  Claim C10. Every difference produced by the comparison of views, stored procedures,
  functions and triggers has an empty \<open>MigrationSQL\<close>. So has every difference of these four
  categories in a result of \<open>Compare\<close>, and what each of the four categories adds to the
  migration script is nothing when it has no difference and its banner alone otherwise.
\<close>

theorem routines_have_no_migration_sql:
  "filter (\<lambda>d. MigrationSQL d \<noteq> '''') (compareViews c rank vs vt) = []
   \<and> filter (\<lambda>d. MigrationSQL d \<noteq> '''') (compareProcedures c rank ps pt) = []
   \<and> filter (\<lambda>d. MigrationSQL d \<noteq> '''') (compareFunctions c rank fs ft) = []
   \<and> filter (\<lambda>d. MigrationSQL d \<noteq> '''') (compareTriggers c rank ts tt) = []
   \<and> filter (\<lambda>d. Category d \<in> {DiffCategoryView, DiffCategoryProcedure, DiffCategoryFunction,
                  DiffCategoryTrigger} \<and> MigrationSQL d \<noteq> '''')
        (Differences (Compare c rank source target)) = []
   \<and> map (migration_section (Compare c rank source target))
        [DiffCategoryView, DiffCategoryProcedure, DiffCategoryFunction, DiffCategoryTrigger]
      = map (\<lambda>cat. if FilterByCategory (Compare c rank source target) cat = [] then ''''
                    else category_banner cat)
          [DiffCategoryView, DiffCategoryProcedure, DiffCategoryFunction, DiffCategoryTrigger]"
proof (intro conjI)
  show "filter (\<lambda>d. MigrationSQL d \<noteq> '''') (compareViews c rank vs vt) = []"
    by (auto simp: filter_empty_conv dest: compareViews_fields)
  show "filter (\<lambda>d. MigrationSQL d \<noteq> '''') (compareProcedures c rank ps pt) = []"
    by (auto simp: filter_empty_conv dest: compareProcedures_fields)
  show "filter (\<lambda>d. MigrationSQL d \<noteq> '''') (compareFunctions c rank fs ft) = []"
    by (auto simp: filter_empty_conv dest: compareFunctions_fields)
  show "filter (\<lambda>d. MigrationSQL d \<noteq> '''') (compareTriggers c rank ts tt) = []"
    by (auto simp: filter_empty_conv dest: compareTriggers_fields)
  show "filter (\<lambda>d. Category d \<in> {DiffCategoryView, DiffCategoryProcedure, DiffCategoryFunction,
                  DiffCategoryTrigger} \<and> MigrationSQL d \<noteq> '''')
        (Differences (Compare c rank source target)) = []"
    using compare_differences_sql [of _ c rank source target]
    by (auto simp: filter_empty_conv)
  show "map (migration_section (Compare c rank source target))
        [DiffCategoryView, DiffCategoryProcedure, DiffCategoryFunction, DiffCategoryTrigger]
      = map (\<lambda>cat. if FilterByCategory (Compare c rank source target) cat = [] then ''''
                    else category_banner cat)
          [DiffCategoryView, DiffCategoryProcedure, DiffCategoryFunction, DiffCategoryTrigger]"
    by (simp add: migration_section_banner)
qed

section \<open>Kinds of the differences, and summary consistency\<close>

lemma compareColumnDetails_kind:
  "d \<in> set (compareColumnDetails c tableName src tgt) \<Longrightarrow> known_kind d"
  by (auto simp: compareColumnDetails_def Let_def known_kind_def split: if_splits)

lemma compareColumns_kind:
  "d \<in> set (compareColumns c rank tableName src tgt) \<Longrightarrow> known_kind d"
  by (auto simp: compareColumns_def Let_def set_for_range
      split: if_splits option.splits dest: compareColumnDetails_kind)
    (simp_all add: known_kind_def)

lemma compareIndexes_kind:
  "d \<in> set (compareIndexes rank tableName src tgt) \<Longrightarrow> known_kind d"
  by (auto simp: compareIndexes_def compareIndexDetails_def Let_def set_for_range known_kind_def
      split: if_splits option.splits)

lemma compareForeignKeys_kind:
  "d \<in> set (compareForeignKeys rank tableName src tgt) \<Longrightarrow> known_kind d"
  by (auto simp: compareForeignKeys_def Let_def set_for_range known_kind_def split: if_splits)

lemma compareCheckConstraints_kind:
  "d \<in> set (compareCheckConstraints rank tableName src tgt) \<Longrightarrow> known_kind d"
  by (auto simp: compareCheckConstraints_def Let_def set_for_range known_kind_def split: if_splits)

lemma comparePrimaryKeys_kind:
  "d \<in> set (comparePrimaryKeys tableName src tgt) \<Longrightarrow> known_kind d"
  by (cases src; cases tgt) (auto simp: Let_def known_kind_def split: if_splits)

lemma compareTableStructure_kind:
  "d \<in> set (compareTableStructure c rank src tgt) \<Longrightarrow> known_kind d"
  by (auto simp: compareTableStructure_def Let_def split: if_splits
      dest: compareColumns_kind compareIndexes_kind compareForeignKeys_kind
        compareCheckConstraints_kind comparePrimaryKeys_kind)

lemma compareTables_kind:
  "d \<in> set (compareTables c rank src tgt) \<Longrightarrow> known_kind d"
  by (auto simp: compareTables_def Let_def set_for_range split: if_splits option.splits
      dest: compareTableStructure_kind) (simp_all add: known_kind_def)

lemma compareViews_kind:
  "d \<in> set (compareViews c rank src tgt) \<Longrightarrow> known_kind d"
  by (auto simp: compareViews_def Let_def set_for_range known_kind_def
      split: if_splits option.splits)

lemma compareProcedures_kind:
  "d \<in> set (compareProcedures c rank src tgt) \<Longrightarrow> known_kind d"
  by (auto simp: compareProcedures_def Let_def set_for_range known_kind_def
      split: if_splits option.splits)

lemma compareFunctions_kind:
  "d \<in> set (compareFunctions c rank src tgt) \<Longrightarrow> known_kind d"
  by (auto simp: compareFunctions_def Let_def set_for_range known_kind_def
      split: if_splits option.splits)

lemma compareTriggers_kind:
  "d \<in> set (compareTriggers c rank src tgt) \<Longrightarrow> known_kind d"
  by (auto simp: compareTriggers_def Let_def set_for_range known_kind_def
      split: if_splits option.splits)

lemma compare_differences_kind:
  "d \<in> set (compare_differences c rank source target) \<Longrightarrow> known_kind d"
  by (auto simp: compare_differences_def split: if_splits
      dest: compareTables_kind compareViews_kind compareProcedures_kind compareFunctions_kind
        compareTriggers_kind)

lemma filter_known_kind_Compare:
  "filter known_kind (compare_differences c rank source target)
     = compare_differences c rank source target"
  by (simp add: filter_id_conv compare_differences_kind)

text \<open>
  Claim C4, as amended. \<open>CalculateSummary\<close> leaves the difference list as it is; afterwards
  \<open>Summary.TotalDifferences\<close> is the length of the list, and
  \<open>Summary.Added + Summary.Removed + Summary.Modified\<close> is the number of the differences whose
  kind is \<open>ADDED\<close>, \<open>REMOVED\<close> or \<open>MODIFIED\<close>. The sum is the total when every difference has one
  of these kinds, and it is so in every result of \<open>Compare\<close>.
\<close>

theorem CalculateSummary_consistent:
  "Differences (CalculateSummary r) = Differences r
   \<and> TotalDifferences (Summary (CalculateSummary r)) = int (length (Differences r))
   \<and> Added (Summary (CalculateSummary r)) + Removed (Summary (CalculateSummary r))
       + Modified (Summary (CalculateSummary r))
     = int (length (filter known_kind (Differences r)))
   \<and> (list_all known_kind (Differences r) \<longrightarrow>
        Added (Summary (CalculateSummary r)) + Removed (Summary (CalculateSummary r))
          + Modified (Summary (CalculateSummary r))
        = TotalDifferences (Summary (CalculateSummary r)))
   \<and> TotalDifferences (Summary (Compare c rank source target))
       = int (length (Differences (Compare c rank source target)))
   \<and> Added (Summary (Compare c rank source target))
       + Removed (Summary (Compare c rank source target))
       + Modified (Summary (Compare c rank source target))
     = TotalDifferences (Summary (Compare c rank source target))"
proof -
  have "list_all known_kind (Differences r) \<Longrightarrow> filter known_kind (Differences r) = Differences r"
    by (simp add: filter_id_conv list_all_iff)
  then show ?thesis
    by (auto simp: CalculateSummary_def Compare_def fold_summary_total fold_summary_kinds
        empty_summary_def filter_known_kind_Compare)
qed

theorem CalculateSummary_consistent_witness:
  "list_all known_kind
     (Differences (ex_result [ex_difference DiffAdded, ex_difference DiffRemoved,
        ex_difference DiffModified]))
   \<and> Added (Summary (CalculateSummary (ex_result [ex_difference DiffAdded,
          ex_difference DiffRemoved, ex_difference DiffModified])))
       + Removed (Summary (CalculateSummary (ex_result [ex_difference DiffAdded,
          ex_difference DiffRemoved, ex_difference DiffModified])))
       + Modified (Summary (CalculateSummary (ex_result [ex_difference DiffAdded,
          ex_difference DiffRemoved, ex_difference DiffModified])))
     = TotalDifferences (Summary (CalculateSummary (ex_result [ex_difference DiffAdded,
          ex_difference DiffRemoved, ex_difference DiffModified])))
   \<and> TotalDifferences (Summary (CalculateSummary (ex_result [ex_difference DiffAdded,
          ex_difference DiffRemoved, ex_difference DiffModified]))) = 3"
proof -
  let ?r = "ex_result [ex_difference DiffAdded, ex_difference DiffRemoved,
        ex_difference DiffModified]"
  have h: "list_all known_kind (Differences ?r)"
    by (simp add: ex_result_def ex_difference_def known_kind_def)
  have n: "length (Differences ?r) = 3"
    by (simp add: ex_result_def)
  note facts = CalculateSummary_consistent [of ?r ex_comparator insertion_order ex_schema
      ex_schema]
  from facts have total: "TotalDifferences (Summary (CalculateSummary ?r)) = int (length (Differences ?r))"
    by (elim conjE)
  from facts have "list_all known_kind (Differences ?r) \<longrightarrow>
        Added (Summary (CalculateSummary ?r)) + Removed (Summary (CalculateSummary ?r))
          + Modified (Summary (CalculateSummary ?r))
        = TotalDifferences (Summary (CalculateSummary ?r))"
    by (elim conjE)
  with h have "Added (Summary (CalculateSummary ?r)) + Removed (Summary (CalculateSummary ?r))
          + Modified (Summary (CalculateSummary ?r))
        = TotalDifferences (Summary (CalculateSummary ?r))"
    by (rule rev_mp)
  with h total n show ?thesis
    by (simp only: simp_thms of_nat_numeral)
qed

text \<open>
  Claim C4 as it was stated fails for a difference of another kind: it is counted in the
  total and in none of the three kind counters.
\<close>

theorem CalculateSummary_consistent_counterexample:
  "TotalDifferences (Summary (CalculateSummary (ex_result [ex_difference ''RENAMED'']))) = 1
   \<and> Added (Summary (CalculateSummary (ex_result [ex_difference ''RENAMED''])))
       + Removed (Summary (CalculateSummary (ex_result [ex_difference ''RENAMED''])))
       + Modified (Summary (CalculateSummary (ex_result [ex_difference ''RENAMED'']))) = 0
   \<and> TotalDifferences (Summary (CalculateSummary (ex_result [ex_difference []]))) = 1
   \<and> Added (Summary (CalculateSummary (ex_result [ex_difference []])))
       + Removed (Summary (CalculateSummary (ex_result [ex_difference []])))
       + Modified (Summary (CalculateSummary (ex_result [ex_difference []]))) = 0"
  by (simp add: CalculateSummary_def ex_result_def ex_difference_def summary_step_def
      empty_summary_def DiffAdded_def DiffRemoved_def DiffModified_def)

section \<open>Length clauses of \<open>Column.GenerateSQL\<close>\<close>

lemma quot_nonneg: "0 \<le> a \<Longrightarrow> 0 < b \<Longrightarrow> quot a b = a div b"
  by (cases "a = 0") (simp_all add: quot_def)

text \<open>
  Claim C8. For a column that is not computed and whose type, in upper case, is one of
  VARCHAR, NVARCHAR, CHAR, NCHAR, VARBINARY, BINARY, \<open>GenerateSQL\<close> writes name and type,
  then \<open>(MAX)\<close> when \<open>MaxLength\<close> is \<open>-1\<close>; otherwise the length in parentheses, which is
  \<open>MaxLength / 2\<close> (Go's truncating division) when the upper-cased type starts with \<open>N\<close>
  and \<open>MaxLength\<close> itself when it does not; then the identity, nullability and default
  clauses.
\<close>

theorem Column_GenerateSQL_length:
  assumes "\<not> col_IsComputed c" and "ToUpper (col_DataType c) \<in> set length_types"
  shows "Column_GenerateSQL c =
           ''['' @ col_Name c @ ''] '' @ col_DataType c
           @ (if col_MaxLength c = - 1 then ''(MAX)''
              else if HasPrefix (ToUpper (col_DataType c)) ''N''
                then ''('' @ fmt_d (quot (col_MaxLength c) 2) @ '')''
              else ''('' @ fmt_d (col_MaxLength c) @ '')'')
           @ column_clauses c"
  using assms by (simp add: Column_GenerateSQL_def type_suffix_def)

theorem Column_GenerateSQL_length_witness:
  "\<not> col_IsComputed ex_column \<and> ToUpper (col_DataType ex_column) \<in> set length_types
   \<and> Column_GenerateSQL ex_column = ''[Email] nvarchar(50) NOT NULL''"
proof -
  have h1: "\<not> col_IsComputed ex_column"
    by (simp add: ex_column_def)
  have h2: "ToUpper (col_DataType ex_column) \<in> set length_types"
    by code_simp
  have "Column_GenerateSQL ex_column = ''[Email] nvarchar(50) NOT NULL''"
    unfolding Column_GenerateSQL_length [OF h1 h2] by code_simp
  with h1 h2 show ?thesis
    by simp
qed

section \<open>Whitespace normalisation\<close>

subsection \<open>TrimSpace and single spaces at the ends\<close>

lemma space_rune_prefix_snoc:
  assumes "x \<noteq> []" and "p \<in> set space_runes"
  shows "prefix p (x @ '' '') \<longleftrightarrow> prefix p x"
proof -
  have "p \<noteq> x @ '' ''"
  proof
    assume "p = x @ '' ''"
    then have "last p = CHR '' ''" and "2 \<le> length p"
      using assms(1) by (simp_all add: Suc_le_eq)
    with assms(2) show False
      by (auto simp: space_runes_def)
  qed
  then show ?thesis
    by (auto simp: prefix_snoc)
qed

lemma find_space_rune_snoc:
  assumes "x \<noteq> []"
  shows "find (\<lambda>p. p \<noteq> [] \<and> prefix p (x @ '' '')) space_runes
           = find (\<lambda>p. p \<noteq> [] \<and> prefix p x) space_runes"
proof (rule find_cong [OF refl])
  fix p assume "p \<in> set space_runes"
  then have "prefix p (x @ '' '') \<longleftrightarrow> prefix p x"
    by (rule space_rune_prefix_snoc [OF assms])
  then show "(p \<noteq> [] \<and> prefix p (x @ '' '')) = (p \<noteq> [] \<and> prefix p x)"
    by (simp only:)
qed

lemma trim_front_Nil [simp]: "trim_front ps [] = []"
  by (subst trim_front.simps) (auto simp: find_None_iff split: option.splits dest: find_Some_iff[THEN iffD1])

lemma trim_front_space [simp]: "trim_front space_runes (CHR '' '' # x) = trim_front space_runes x"
  by (subst trim_front.simps) (simp add: space_runes_def)

lemma trim_front_rev_space [simp]:
  "trim_front (map rev space_runes) (CHR '' '' # x) = trim_front (map rev space_runes) x"
  by (subst trim_front.simps) (simp add: space_runes_def)

lemma trim_front_snoc_space:
  "trim_front space_runes (x @ '' '')
     = (if trim_front space_runes x = [] then [] else trim_front space_runes x @ '' '')"
proof (induction x rule: length_induct)
  case (1 s)
  show ?case
  proof (cases "s = []")
    case True
    then show ?thesis by simp
  next
    case False
    note fs = find_space_rune_snoc [OF False]
    show ?thesis
    proof (cases "find (\<lambda>p. p \<noteq> [] \<and> prefix p s) space_runes")
      case None
      then have "trim_front space_runes s = s"
        by (subst trim_front.simps) simp
      moreover have "trim_front space_runes (s @ '' '') = s @ '' ''"
        using None fs by (subst trim_front.simps) simp
      ultimately show ?thesis
        using False by simp
    next
      case (Some p)
      then have "prefix p s" and "p \<noteq> []"
        by (auto simp: find_Some_iff)
      then have len: "length p \<le> length s"
        by (simp add: prefix_length_le)
      have a: "trim_front space_runes s = trim_front space_runes (drop (length p) s)"
        using Some by (subst trim_front.simps) simp
      have b: "trim_front space_runes (s @ '' '')
                 = trim_front space_runes (drop (length p) s @ '' '')"
        using Some fs len by (subst trim_front.simps) simp
      have "length (drop (length p) s) < length s"
        using False \<open>p \<noteq> []\<close> by simp
      with "1.IH" show ?thesis
        by (simp only: a b)
    qed
  qed
qed

lemma TrimSpace_Cons_space [simp]: "TrimSpace (CHR '' '' # x) = TrimSpace x"
  by (simp add: TrimSpace_def)

lemma TrimSpace_snoc_space [simp]: "TrimSpace (x @ '' '') = TrimSpace x"
  by (simp add: TrimSpace_def trim_front_snoc_space)


subsection \<open>The normal form\<close>

lemma join_Cons: "join sep (x # xs) = (if xs = [] then x else x @ sep @ join sep xs)"
  by (cases xs) simp_all

lemma replace_space_runs_word:
  "\<forall>ch \<in> set w. \<not> is_regex_space ch \<Longrightarrow> replace_space_runs (w @ rest) = w @ replace_space_runs rest"
  by (induction w) simp_all

lemma replace_space_runs_split:
  assumes "\<not> is_regex_space ch"
  shows "replace_space_runs (ch # cs)
           = (ch # takeWhile (\<lambda>x. \<not> is_regex_space x) cs)
             @ replace_space_runs (dropWhile (\<lambda>x. \<not> is_regex_space x) cs)"
proof -
  have "\<forall>x \<in> set (ch # takeWhile (\<lambda>x. \<not> is_regex_space x) cs). \<not> is_regex_space x"
    using assms by (auto dest: set_takeWhileD)
  from replace_space_runs_word [OF this, of "dropWhile (\<lambda>x. \<not> is_regex_space x) cs"]
  show ?thesis by simp
qed

lemma replace_space_runs_normal_form:
  "\<exists>b. (b = [] \<or> b = '' '') \<and> (words_of s = [] \<longrightarrow> b = [])
       \<and> replace_space_runs s = leading_space s @ join '' '' (words_of s) @ b"
proof (induction s rule: words_of.induct)
  case 1
  show ?case by (simp add: leading_space_def)
next
  case (2 ch cs)
  show ?case
  proof (cases "is_regex_space ch")
    case True
    let ?s' = "dropWhile is_regex_space cs"
    from 2(1) [OF True] obtain b where b: "b = [] \<or> b = '' ''" "words_of ?s' = [] \<longrightarrow> b = []"
      and r: "replace_space_runs ?s' = leading_space ?s' @ join '' '' (words_of ?s') @ b"
      by blast
    have "leading_space ?s' = []"
      using hd_dropWhile [of is_regex_space cs] by (auto simp: leading_space_def)
    with r True b show ?thesis
      by (auto simp: leading_space_def)
  next
    case False
    let ?w = "ch # takeWhile (\<lambda>x. \<not> is_regex_space x) cs"
    let ?rest = "dropWhile (\<lambda>x. \<not> is_regex_space x) cs"
    from 2(2) [OF False] obtain b where b: "b = [] \<or> b = '' ''" "words_of ?rest = [] \<longrightarrow> b = []"
      and r: "replace_space_runs ?rest = leading_space ?rest @ join '' '' (words_of ?rest) @ b"
      by blast
    have split: "replace_space_runs (ch # cs) = ?w @ replace_space_runs ?rest"
      by (rule replace_space_runs_split [OF False])
    have ws: "words_of (ch # cs) = ?w # words_of ?rest"
      using False by simp
    have l: "leading_space (ch # cs) = []"
      using False by (simp add: leading_space_def)
    show ?thesis
    proof (cases "?rest = []")
      case True
      have "words_of ?rest = []" and "replace_space_runs ?rest = []"
        by (simp_all only: True words_of.simps replace_space_runs.simps)
      then show ?thesis
        unfolding split ws l by (simp only: join_Cons) simp
    next
      case nonempty: False
      then have "is_regex_space (hd ?rest)"
        using hd_dropWhile [of "\<lambda>x. \<not> is_regex_space x" cs] by simp
      then have lr: "leading_space ?rest = '' ''"
        using nonempty by (simp add: leading_space_def)
      show ?thesis
      proof (cases "words_of ?rest = []")
        case True
        then have "replace_space_runs ?rest = '' ''"
          using r b lr by simp
        then show ?thesis
          unfolding split ws l using True by (simp add: join_Cons)
      next
        case False
        then show ?thesis
          unfolding split ws l using r b lr by (auto simp: join_Cons)
      qed
    qed
  qed
qed

lemma TrimSpace_leading_space [simp]: "TrimSpace (leading_space s @ x) = TrimSpace x"
  by (simp add: leading_space_def)

lemma normalizeWhitespace_words:
  "normalizeWhitespace s = TrimSpace (join '' '' (words_of s))"
proof -
  obtain b where "b = [] \<or> b = '' ''"
    and "replace_space_runs s = leading_space s @ join '' '' (words_of s) @ b"
    using replace_space_runs_normal_form [of s] by blast
  then show ?thesis
    by (auto simp: normalizeWhitespace_def simp flip: append_assoc)
qed

lemma definitionsEqual_words:
  "words_of s = words_of t \<Longrightarrow> IgnoreWhitespace (options c) \<Longrightarrow> definitionsEqual c s t"
  by (simp add: definitionsEqual_def normalizeWhitespace_words)

subsection \<open>The space runes as a code\<close>
















subsection \<open>Space runes at the ends of a definition\<close>









section \<open>Collections that differ in one element\<close>

lemma build_of_distinct:
  "distinct (map key xs) \<Longrightarrow> fold (\<lambda>x. AList.update (key x) x) xs [] = map (\<lambda>x. (key x, x)) xs"
  using build_distinct_keys [of "[]" key xs] by simp

lemma map_of_keyed:
  "distinct (map key xs) \<Longrightarrow> x \<in> set xs \<Longrightarrow> map_of (map (\<lambda>x. (key x, x)) xs) (key x) = Some x"
  by (rule map_of_is_SomeI) (auto simp: comp_def)

lemma map_of_keyed_None:
  "map_of (map (\<lambda>x. (key x, x)) xs) k = None \<longleftrightarrow> k \<notin> key ` set xs"
  by (auto simp: map_of_eq_None_iff image_image)

lemma for_range_keyed_empty:
  "(\<And>x. x \<in> set xs \<Longrightarrow> body (key x) x = []) \<Longrightarrow> for_range rank (map (\<lambda>x. (key x, x)) xs) body = []"
  by (rule for_range_empty) auto

lemma for_range_keyed_single:
  assumes "distinct (map key xs)" and "x0 \<in> set xs"
    and "\<And>x. x \<in> set xs \<Longrightarrow> key x \<noteq> key x0 \<Longrightarrow> body (key x) x = []"
  shows "for_range rank (map (\<lambda>x. (key x, x)) xs) body = body (key x0) x0"
proof (rule for_range_single)
  show "distinct (map fst (map (\<lambda>x. (key x, x)) xs))"
    using assms(1) by (simp add: comp_def)
  show "(key x0, x0) \<in> set (map (\<lambda>x. (key x, x)) xs)"
    using assms(2) by auto
  show "\<And>k v. (k, v) \<in> set (map (\<lambda>x. (key x, x)) xs) \<Longrightarrow> k \<noteq> key x0 \<Longrightarrow> body k v = []"
    using assms(3) by auto
qed

lemma compare_by_name_changed:
  assumes d: "distinct (map key (as @ x # bs))" and k: "key y = key x"
    and refl: "\<And>name z. both name z z = []"
  shows "compare_by_name rank key (as @ x # bs) (as @ y # bs) removed added both
           = both (key x) x y"
proof -
  let ?xs = "as @ x # bs" and ?ys = "as @ y # bs"
  let ?M = "map (\<lambda>x. (key x, x)) ?xs" and ?N = "map (\<lambda>x. (key x, x)) ?ys"
  have d': "distinct (map key ?ys)"
    using d k by simp
  have keys: "key ` set ?ys = key ` set ?xs"
    using k by simp
  have l1: "for_range rank ?M (\<lambda>name src. if map_of ?N name = None then removed name src else []) = []"
  proof (rule for_range_keyed_empty)
    fix z assume "z \<in> set ?xs"
    then have "key z \<in> key ` set ?ys"
      unfolding keys by (rule imageI)
    then have "map_of ?N (key z) \<noteq> None"
      by (simp only: map_of_keyed_None not_not)
    then show "(if map_of ?N (key z) = None then removed (key z) z else []) = []"
      by (simp only: if_False)
  qed
  have l2: "for_range rank ?N (\<lambda>name tgt. if map_of ?M name = None then added name tgt else []) = []"
  proof (rule for_range_keyed_empty)
    fix z assume "z \<in> set ?ys"
    then have "key z \<in> key ` set ?xs"
      unfolding keys [symmetric] by (rule imageI)
    then have "map_of ?M (key z) \<noteq> None"
      by (simp only: map_of_keyed_None not_not)
    then show "(if map_of ?M (key z) = None then added (key z) z else []) = []"
      by (simp only: if_False)
  qed
  have l3: "for_range rank ?M (\<lambda>name src.
              case map_of ?N name of Some tgt \<Rightarrow> both name src tgt | None \<Rightarrow> [])
            = (case map_of ?N (key x) of Some tgt \<Rightarrow> both (key x) x tgt | None \<Rightarrow> [])"
  proof (rule for_range_keyed_single [OF d])
    show "x \<in> set ?xs" by simp
  next
    fix z assume z: "z \<in> set ?xs" "key z \<noteq> key x"
    then have "z \<in> set ?ys" by auto
    then have "map_of ?N (key z) = Some z"
      by (rule map_of_keyed [OF d'])
    then show "(case map_of ?N (key z) of Some tgt \<Rightarrow> both (key z) z tgt | None \<Rightarrow> []) = []"
      by (simp add: refl)
  qed
  have "map_of ?N (key y) = Some y"
    by (rule map_of_keyed [OF d']) simp
  then have "map_of ?N (key x) = Some y"
    by (simp only: k)
  with l3 have l3': "for_range rank ?M (\<lambda>name src.
              case map_of ?N name of Some tgt \<Rightarrow> both name src tgt | None \<Rightarrow> [])
            = both (key x) x y"
    by simp
  show ?thesis
    unfolding compare_by_name_def Let_def build_of_distinct [OF d] build_of_distinct [OF d']
    by (simp only: l1 l2 l3' append_Nil)
qed

lemma compare_by_name_extra:
  assumes d: "distinct (map key (as @ x # bs))"
    and refl: "\<And>name z. both name z z = []"
  shows "compare_by_name rank key (as @ x # bs) (as @ bs) removed added both = removed (key x) x"
    and "compare_by_name rank key (as @ bs) (as @ x # bs) removed added both = added (key x) x"
proof -
  let ?xs = "as @ x # bs" and ?ys = "as @ bs"
  let ?M = "map (\<lambda>x. (key x, x)) ?xs" and ?N = "map (\<lambda>x. (key x, x)) ?ys"
  have d': "distinct (map key ?ys)"
    using d by simp
  have notin: "key x \<notin> key ` set ?ys"
    using d by auto
  have sub: "\<And>z. z \<in> set ?ys \<Longrightarrow> z \<in> set ?xs"
    by auto
  have other: "\<And>z. z \<in> set ?xs \<Longrightarrow> key z \<noteq> key x \<Longrightarrow> z \<in> set ?ys"
    by auto
  have N_x: "map_of ?N (key x) = None"
    using notin by (simp only: map_of_keyed_None not_False_eq_True)
  have one: "for_range rank ?M (\<lambda>name v. if map_of ?N name = None then f name v else []) = f (key x) x"
    for f :: "string \<Rightarrow> 'a \<Rightarrow> Difference list"
  proof -
    have "for_range rank ?M (\<lambda>name v. if map_of ?N name = None then f name v else [])
            = (if map_of ?N (key x) = None then f (key x) x else [])"
    proof (rule for_range_keyed_single [OF d])
      show "x \<in> set ?xs" by simp
    next
      fix z assume "z \<in> set ?xs" "key z \<noteq> key x"
      then have "z \<in> set ?ys" by (rule other)
      then have "map_of ?N (key z) = Some z"
        by (rule map_of_keyed [OF d'])
      then show "(if map_of ?N (key z) = None then f (key z) z else []) = []"
        by simp
    qed
    with N_x show ?thesis by simp
  qed
  have none: "for_range rank ?N (\<lambda>name v. if map_of ?M name = None then f name v else []) = []"
    for f :: "string \<Rightarrow> 'a \<Rightarrow> Difference list"
  proof (rule for_range_keyed_empty)
    fix z assume "z \<in> set ?ys"
    then have "map_of ?M (key z) = Some z"
      by (intro map_of_keyed [OF d] sub)
    then show "(if map_of ?M (key z) = None then f (key z) z else []) = []"
      by simp
  qed
  have bothM: "for_range rank ?M (\<lambda>name src.
              case map_of ?N name of Some tgt \<Rightarrow> both name src tgt | None \<Rightarrow> []) = []"
  proof (rule for_range_keyed_empty)
    fix z assume z: "z \<in> set ?xs"
    show "(case map_of ?N (key z) of Some tgt \<Rightarrow> both (key z) z tgt | None \<Rightarrow> []) = []"
    proof (cases "key z = key x")
      case True
      show ?thesis
        by (simp only: True N_x option.case)
    next
      case False
      with z have "z \<in> set ?ys" by (rule other)
      then have "map_of ?N (key z) = Some z"
        by (rule map_of_keyed [OF d'])
      then show ?thesis by (simp add: refl)
    qed
  qed
  have bothN: "for_range rank ?N (\<lambda>name src.
              case map_of ?M name of Some tgt \<Rightarrow> both name src tgt | None \<Rightarrow> []) = []"
  proof (rule for_range_keyed_empty)
    fix z assume "z \<in> set ?ys"
    then have "map_of ?M (key z) = Some z"
      by (intro map_of_keyed [OF d] sub)
    then show "(case map_of ?M (key z) of Some tgt \<Rightarrow> both (key z) z tgt | None \<Rightarrow> []) = []"
      by (simp add: refl)
  qed
  show "compare_by_name rank key ?xs ?ys removed added both = removed (key x) x"
    unfolding compare_by_name_def Let_def build_of_distinct [OF d] build_of_distinct [OF d']
    by (simp only: one none bothM append_Nil2)
  show "compare_by_name rank key ?ys ?xs removed added both = added (key x) x"
    unfolding compare_by_name_def Let_def build_of_distinct [OF d] build_of_distinct [OF d']
    by (simp only: one none bothN append_Nil append_Nil2)
qed

section \<open>The routines as instances of the common shape\<close>

lemma for_range_no_body:
  "for_range rank m (\<lambda>name v. case f name of Some t \<Rightarrow> [] | None \<Rightarrow> []) = []"
  by (rule for_range_empty) (simp split: option.split)

lemma compareTables_shape:
  "compareTables c rank source target =
     compare_by_name rank formatTableName source target
       (\<lambda>name srcTable.
          [\<lparr>Type = DiffRemoved, Category = DiffCategoryTable, ObjectName = name,
            PropertyName = '''', SourceValue = '''', TargetValue = '''',
            Description = ''Table ['' @ name @ ''] exists in source but not in target'',
            MigrationSQL = ''CREATE TABLE '' @ name @ '' ('' @ nl
              @ ''    -- Copy structure from source'' @ nl @ '')''\<rparr>])
       (\<lambda>name tgtTable.
          [\<lparr>Type = DiffAdded, Category = DiffCategoryTable, ObjectName = name,
            PropertyName = '''', SourceValue = '''', TargetValue = '''',
            Description = ''Table ['' @ name @ ''] exists in target but not in source'',
            MigrationSQL = ''DROP TABLE '' @ formatTableName tgtTable @ '';''\<rparr>])
       (\<lambda>name srcTable tgtTable.
          compareTableStructure c rank srcTable tgtTable)"
  unfolding compareTables_def compare_by_name_def tablesToMap_def ..

lemma compareColumns_shape:
  "compareColumns c rank tableName source target =
     compare_by_name rank col_Name source target
       (\<lambda>name srcCol.
          [\<lparr>Type = DiffRemoved, Category = DiffCategoryColumn,
            ObjectName = tableName @ ''.'' @ name, PropertyName = '''', SourceValue = '''',
            TargetValue = '''',
            Description = ''Column ['' @ name @ ''] missing in target'',
            MigrationSQL = ''ALTER TABLE '' @ tableName @ '' ADD '' @ Column_GenerateSQL srcCol
              @ '';''\<rparr>])
       (\<lambda>name tgtCol.
          [\<lparr>Type = DiffAdded, Category = DiffCategoryColumn,
            ObjectName = tableName @ ''.'' @ name, PropertyName = '''', SourceValue = '''',
            TargetValue = '''',
            Description = ''Column ['' @ name @ ''] exists only in target'',
            MigrationSQL = ''ALTER TABLE '' @ tableName @ '' DROP COLUMN ['' @ name @ ''];''\<rparr>])
       (\<lambda>name srcCol tgtCol.
          compareColumnDetails c tableName srcCol tgtCol)"
  unfolding compareColumns_def compare_by_name_def columnsToMap_def ..

lemma compareIndexes_shape:
  "compareIndexes rank tableName source target =
     compare_by_name rank idx_Name source target
       (\<lambda>name srcIdx.
          [\<lparr>Type = DiffRemoved, Category = DiffCategoryIndex,
            ObjectName = tableName @ ''.'' @ name, PropertyName = '''', SourceValue = '''',
            TargetValue = '''',
            Description = ''Index ['' @ name @ ''] missing in target'',
            MigrationSQL = Index_GenerateSQL srcIdx @ '';''\<rparr>])
       (\<lambda>name tgtIdx.
          [\<lparr>Type = DiffAdded, Category = DiffCategoryIndex,
            ObjectName = tableName @ ''.'' @ name, PropertyName = '''', SourceValue = '''',
            TargetValue = '''',
            Description = ''Index ['' @ name @ ''] exists only in target'',
            MigrationSQL = ''DROP INDEX ['' @ name @ ''] ON '' @ tableName @ '';''\<rparr>])
       (\<lambda>name srcIdx tgtIdx.
          compareIndexDetails tableName srcIdx tgtIdx)"
  unfolding compareIndexes_def compare_by_name_def indexesToMap_def ..

lemma compareForeignKeys_shape:
  "compareForeignKeys rank tableName source target =
     compare_by_name rank fk_Name source target
       (\<lambda>name srcFK.
          [\<lparr>Type = DiffRemoved, Category = DiffCategoryForeignKey,
            ObjectName = tableName @ ''.'' @ name, PropertyName = '''', SourceValue = '''',
            TargetValue = '''',
            Description = ''Foreign key ['' @ name @ ''] missing in target'',
            MigrationSQL = ForeignKey_GenerateSQL srcFK @ '';''\<rparr>])
       (\<lambda>name tgtFK.
          [\<lparr>Type = DiffAdded, Category = DiffCategoryForeignKey,
            ObjectName = tableName @ ''.'' @ name, PropertyName = '''', SourceValue = '''',
            TargetValue = '''',
            Description = ''Foreign key ['' @ name @ ''] exists only in target'',
            MigrationSQL = ''ALTER TABLE '' @ tableName @ '' DROP CONSTRAINT ['' @ name @ ''];''\<rparr>])
       (\<lambda>name src tgt. [])"
  unfolding compareForeignKeys_def compare_by_name_def foreignKeysToMap_def Let_def for_range_no_body
  by (simp only: append_Nil2)

lemma compareCheckConstraints_shape:
  "compareCheckConstraints rank tableName source target =
     compare_by_name rank cc_Name source target
       (\<lambda>name srcCC.
          [\<lparr>Type = DiffRemoved, Category = DiffCategoryConstraint,
            ObjectName = tableName @ ''.'' @ name, PropertyName = '''', SourceValue = '''',
            TargetValue = '''',
            Description = ''Check constraint ['' @ name @ ''] missing in target'',
            MigrationSQL = CheckConstraint_GenerateSQL srcCC @ '';''\<rparr>])
       (\<lambda>name tgtCC.
          [\<lparr>Type = DiffAdded, Category = DiffCategoryConstraint,
            ObjectName = tableName @ ''.'' @ name, PropertyName = '''', SourceValue = '''',
            TargetValue = '''',
            Description = ''Check constraint ['' @ name @ ''] exists only in target'',
            MigrationSQL = ''ALTER TABLE '' @ tableName @ '' DROP CONSTRAINT ['' @ name @ ''];''\<rparr>])
       (\<lambda>name src tgt. [])"
  unfolding compareCheckConstraints_def compare_by_name_def checkConstraintsToMap_def Let_def for_range_no_body
  by (simp only: append_Nil2)

lemma compareViews_shape:
  "compareViews c rank source target =
     compare_by_name rank view_key source target
       (\<lambda>name srcView.
          [\<lparr>Type = DiffRemoved, Category = DiffCategoryView, ObjectName = name,
            PropertyName = '''', SourceValue = '''', TargetValue = '''',
            Description = ''View ['' @ name @ ''] missing in target'', MigrationSQL = ''''\<rparr>])
       (\<lambda>name tgtView.
          [\<lparr>Type = DiffAdded, Category = DiffCategoryView, ObjectName = name,
            PropertyName = '''', SourceValue = '''', TargetValue = '''',
            Description = ''View ['' @ name @ ''] exists only in target'', MigrationSQL = ''''\<rparr>])
       (\<lambda>name srcView tgtView.
          if \<not> definitionsEqual c (view_Definition srcView) (view_Definition tgtView) then
              [\<lparr>Type = DiffModified, Category = DiffCategoryView, ObjectName = name,
                PropertyName = '''', SourceValue = '''', TargetValue = '''',
                Description = ''View definition differs'', MigrationSQL = ''''\<rparr>]
            else [])"
  unfolding compareViews_def compare_by_name_def viewsToMap_def ..

lemma compareProcedures_shape:
  "compareProcedures c rank source target =
     compare_by_name rank procedure_key source target
       (\<lambda>name srcProc.
          [\<lparr>Type = DiffRemoved, Category = DiffCategoryProcedure, ObjectName = name,
            PropertyName = '''', SourceValue = '''', TargetValue = '''',
            Description = ''Procedure ['' @ name @ ''] missing in target'', MigrationSQL = ''''\<rparr>])
       (\<lambda>name tgtProc.
          [\<lparr>Type = DiffAdded, Category = DiffCategoryProcedure, ObjectName = name,
            PropertyName = '''', SourceValue = '''', TargetValue = '''',
            Description = ''Procedure ['' @ name @ ''] exists only in target'',
            MigrationSQL = ''''\<rparr>])
       (\<lambda>name srcProc tgtProc.
          if \<not> definitionsEqual c (sp_Definition srcProc) (sp_Definition tgtProc) then
              [\<lparr>Type = DiffModified, Category = DiffCategoryProcedure, ObjectName = name,
                PropertyName = '''', SourceValue = '''', TargetValue = '''',
                Description = ''Procedure definition differs'', MigrationSQL = ''''\<rparr>]
            else [])"
  unfolding compareProcedures_def compare_by_name_def proceduresToMap_def ..

lemma compareFunctions_shape:
  "compareFunctions c rank source target =
     compare_by_name rank function_key source target
       (\<lambda>name srcFunc.
          [\<lparr>Type = DiffRemoved, Category = DiffCategoryFunction, ObjectName = name,
            PropertyName = '''', SourceValue = '''', TargetValue = '''',
            Description = ''Function ['' @ name @ ''] missing in target'', MigrationSQL = ''''\<rparr>])
       (\<lambda>name tgtFunc.
          [\<lparr>Type = DiffAdded, Category = DiffCategoryFunction, ObjectName = name,
            PropertyName = '''', SourceValue = '''', TargetValue = '''',
            Description = ''Function ['' @ name @ ''] exists only in target'',
            MigrationSQL = ''''\<rparr>])
       (\<lambda>name srcFunc tgtFunc.
          if \<not> definitionsEqual c (fn_Definition srcFunc) (fn_Definition tgtFunc) then
              [\<lparr>Type = DiffModified, Category = DiffCategoryFunction, ObjectName = name,
                PropertyName = '''', SourceValue = '''', TargetValue = '''',
                Description = ''Function definition differs'', MigrationSQL = ''''\<rparr>]
            else [])"
  unfolding compareFunctions_def compare_by_name_def functionsToMap_def ..

lemma compareTriggers_shape:
  "compareTriggers c rank source target =
     compare_by_name rank trigger_key source target
       (\<lambda>name srcTrig.
          [\<lparr>Type = DiffRemoved, Category = DiffCategoryTrigger, ObjectName = name,
            PropertyName = '''', SourceValue = '''', TargetValue = '''',
            Description = ''Trigger ['' @ name @ ''] missing in target'', MigrationSQL = ''''\<rparr>])
       (\<lambda>name tgtTrig.
          [\<lparr>Type = DiffAdded, Category = DiffCategoryTrigger, ObjectName = name,
            PropertyName = '''', SourceValue = '''', TargetValue = '''',
            Description = ''Trigger ['' @ name @ ''] exists only in target'',
            MigrationSQL = ''''\<rparr>])
       (\<lambda>name srcTrig tgtTrig.
          if \<not> definitionsEqual c (trg_Definition srcTrig) (trg_Definition tgtTrig) then
              [\<lparr>Type = DiffModified, Category = DiffCategoryTrigger, ObjectName = name,
                PropertyName = '''', SourceValue = '''', TargetValue = '''',
                Description = ''Trigger definition differs'', MigrationSQL = ''''\<rparr>]
            else [])"
  unfolding compareTriggers_def compare_by_name_def triggersToMap_def ..

section \<open>One object changed\<close>


lemma compareColumns_changed:
  assumes "distinct (map col_Name (cs1 @ col # cs2))" and "col_Name col' = col_Name col"
  shows "compareColumns c rank tableName (cs1 @ col # cs2) (cs1 @ col' # cs2)
           = compareColumnDetails c tableName col col'"
  unfolding compareColumns_shape
  by (subst compare_by_name_changed [OF assms]) (simp_all add: compareColumnDetails_refl)

lemma compareTables_changed:
  assumes "distinct (map formatTableName (ts1 @ t # ts2))" and "formatTableName t' = formatTableName t"
  shows "compareTables c rank (ts1 @ t # ts2) (ts1 @ t' # ts2) = compareTableStructure c rank t t'"
  unfolding compareTables_shape
  by (subst compare_by_name_changed [OF assms]) (simp_all add: compareTableStructure_refl)

lemma compareTableStructure_Columns:
  "compareTableStructure c rank t (t\<lparr>tbl_Columns := cs\<rparr>)
     = compareColumns c rank (formatTableName t) (tbl_Columns t) cs"
  "compareTableStructure c rank (t\<lparr>tbl_Columns := cs\<rparr>) t
     = compareColumns c rank (formatTableName t) cs (tbl_Columns t)"
  by (simp_all add: compareTableStructure_def Let_def compareIndexes_refl compareForeignKeys_refl
      compareCheckConstraints_refl comparePrimaryKeys_refl formatTableName_def)

lemma compare_differences_Tables:
  "compare_differences c rank S (S\<lparr>Tables := ts\<rparr>)
     = (if IncludeTables (options c) then compareTables c rank (Tables S) ts else [])"
  "compare_differences c rank (S\<lparr>Tables := ts\<rparr>) S
     = (if IncludeTables (options c) then compareTables c rank ts (Tables S) else [])"
  by (simp_all add: compare_differences_def compareViews_refl compareProcedures_refl
      compareFunctions_refl compareTriggers_refl)

lemma compare_differences_Views:
  "compare_differences c rank S (S\<lparr>Views := vs\<rparr>)
     = (if IncludeViews (options c) then compareViews c rank (Views S) vs else [])"
  "compare_differences c rank (S\<lparr>Views := vs\<rparr>) S
     = (if IncludeViews (options c) then compareViews c rank vs (Views S) else [])"
  by (simp_all add: compare_differences_def compareTables_refl compareProcedures_refl
      compareFunctions_refl compareTriggers_refl)

lemma column_change:
  assumes "IncludeTables (options c)"
    and "Tables S = ts1 @ t # ts2" and "distinct (map formatTableName (Tables S))"
    and "tbl_Columns t = cs1 @ col # cs2" and "distinct (map col_Name (tbl_Columns t))"
    and "col_Name col' = col_Name col"
  shows "compare_differences c rank S (S\<lparr>Tables := ts1 @ t\<lparr>tbl_Columns := cs1 @ col' # cs2\<rparr> # ts2\<rparr>)
           = compareColumnDetails c (formatTableName t) col col'"
proof -
  let ?t' = "t\<lparr>tbl_Columns := cs1 @ col' # cs2\<rparr>"
  have k: "formatTableName ?t' = formatTableName t"
    by (simp add: formatTableName_def)
  have d: "distinct (map formatTableName (ts1 @ t # ts2))"
    using assms(2,3) by simp
  have dc: "distinct (map col_Name (cs1 @ col # cs2))"
    using assms(4,5) by simp
  have "compare_differences c rank S (S\<lparr>Tables := ts1 @ ?t' # ts2\<rparr>)
          = compareTables c rank (ts1 @ t # ts2) (ts1 @ ?t' # ts2)"
    using assms(1,2) by (simp add: compare_differences_Tables)
  also have "\<dots> = compareTableStructure c rank t ?t'"
    by (rule compareTables_changed [OF d k])
  also have "\<dots> = compareColumns c rank (formatTableName t) (cs1 @ col # cs2) (cs1 @ col' # cs2)"
    by (simp add: compareTableStructure_Columns assms(4))
  also have "\<dots> = compareColumnDetails c (formatTableName t) col col'"
    by (rule compareColumns_changed [OF dc assms(6)])
  finally show ?thesis .
qed

lemma table_column_change:
  assumes "tbl_Columns t = cs1 @ col # cs2" and "distinct (map col_Name (tbl_Columns t))"
    and "col_Name col' = col_Name col"
  shows "compareTableStructure c rank t (t\<lparr>tbl_Columns := cs1 @ col' # cs2\<rparr>)
           = compareColumnDetails c (formatTableName t) col col'"
proof -
  have d: "distinct (map col_Name (cs1 @ col # cs2))"
    using assms(2) by (simp only: assms(1))
  show ?thesis
    unfolding compareTableStructure_Columns assms(1)
    by (rule compareColumns_changed [OF d assms(3)])
qed

text \<open>
  Claim C5. Source and target column differ in \<open>IsNullable\<close> and in nothing else. Comparing
  the two columns gives exactly one difference: it is \<open>Modified\<close>, of category \<open>COLUMN\<close>, names
  the column, has the property name \<open>Nullability\<close>, and its source and target values are
  \<open>NULL\<close> or \<open>NOT NULL\<close> as the source and the target column are. Comparing two tables that
  are the same but for this column (the column names of the table being distinct) gives
  this difference and no other; and so does \<open>Compare\<close>, with tables compared, on two schemas
  that are the same but for this column of one table (the table names being distinct).
\<close>

theorem nullability_change_isolated:
  "compareColumnDetails c tableName col (col\<lparr>col_IsNullable := \<not> col_IsNullable col\<rparr>)
     = [\<lparr>Type = DiffModified, Category = DiffCategoryColumn,
         ObjectName = tableName @ ''.'' @ col_Name col,
         PropertyName = ''Nullability'',
         SourceValue = (if col_IsNullable col then ''NULL'' else ''NOT NULL''),
         TargetValue = (if col_IsNullable col then ''NOT NULL'' else ''NULL''),
         Description = ''Nullability differs: ''
           @ (if col_IsNullable col then ''NULL'' else ''NOT NULL'') @ '' vs ''
           @ (if col_IsNullable col then ''NOT NULL'' else ''NULL''),
         MigrationSQL = ''''\<rparr>]
   \<and> (tbl_Columns t = cs1 @ col # cs2 \<and> distinct (map col_Name (tbl_Columns t)) \<longrightarrow>
        compareTableStructure c rank t
          (t\<lparr>tbl_Columns := cs1 @ col\<lparr>col_IsNullable := \<not> col_IsNullable col\<rparr> # cs2\<rparr>)
        = compareColumnDetails c (formatTableName t) col
            (col\<lparr>col_IsNullable := \<not> col_IsNullable col\<rparr>)
        \<and> (IncludeTables (options c) \<and> Tables S = ts1 @ t # ts2
             \<and> distinct (map formatTableName (Tables S)) \<longrightarrow>
             Differences (Compare c rank S
               (S\<lparr>Tables := ts1
                   @ t\<lparr>tbl_Columns := cs1 @ col\<lparr>col_IsNullable := \<not> col_IsNullable col\<rparr> # cs2\<rparr>
                   # ts2\<rparr>))
             = compareColumnDetails c (formatTableName t) col
                 (col\<lparr>col_IsNullable := \<not> col_IsNullable col\<rparr>)))"
proof (intro conjI impI)
  show "compareColumnDetails c tableName col (col\<lparr>col_IsNullable := \<not> col_IsNullable col\<rparr>)
     = [\<lparr>Type = DiffModified, Category = DiffCategoryColumn,
         ObjectName = tableName @ ''.'' @ col_Name col,
         PropertyName = ''Nullability'',
         SourceValue = (if col_IsNullable col then ''NULL'' else ''NOT NULL''),
         TargetValue = (if col_IsNullable col then ''NOT NULL'' else ''NULL''),
         Description = ''Nullability differs: ''
           @ (if col_IsNullable col then ''NULL'' else ''NOT NULL'') @ '' vs ''
           @ (if col_IsNullable col then ''NOT NULL'' else ''NULL''),
         MigrationSQL = ''''\<rparr>]"
    by (simp add: compareColumnDetails_def null_text_def Let_def)
next
  assume a: "tbl_Columns t = cs1 @ col # cs2 \<and> distinct (map col_Name (tbl_Columns t))"
  show "compareTableStructure c rank t
          (t\<lparr>tbl_Columns := cs1 @ col\<lparr>col_IsNullable := \<not> col_IsNullable col\<rparr> # cs2\<rparr>)
        = compareColumnDetails c (formatTableName t) col
            (col\<lparr>col_IsNullable := \<not> col_IsNullable col\<rparr>)"
    by (rule table_column_change [OF conjunct1 [OF a] conjunct2 [OF a]]) simp
next
  assume a: "tbl_Columns t = cs1 @ col # cs2 \<and> distinct (map col_Name (tbl_Columns t))"
    and b: "IncludeTables (options c) \<and> Tables S = ts1 @ t # ts2
         \<and> distinct (map formatTableName (Tables S))"
  show "Differences (Compare c rank S
               (S\<lparr>Tables := ts1
                   @ t\<lparr>tbl_Columns := cs1 @ col\<lparr>col_IsNullable := \<not> col_IsNullable col\<rparr> # cs2\<rparr>
                   # ts2\<rparr>))
             = compareColumnDetails c (formatTableName t) col
                 (col\<lparr>col_IsNullable := \<not> col_IsNullable col\<rparr>)"
    unfolding Differences_Compare
    by (rule column_change [OF conjunct1 [OF b] conjunct1 [OF conjunct2 [OF b]]
          conjunct2 [OF conjunct2 [OF b]] conjunct1 [OF a] conjunct2 [OF a]]) simp
qed

theorem nullability_change_isolated_witness:
  "tbl_Columns ex_table = [ex_id_column] @ ex_column # []
   \<and> distinct (map col_Name (tbl_Columns ex_table))
   \<and> IncludeTables (options ex_comparator)
   \<and> Tables ex_schema = [] @ ex_table # []
   \<and> distinct (map formatTableName (Tables ex_schema))
   \<and> Differences (Compare ex_comparator insertion_order ex_schema
        (ex_schema\<lparr>Tables := [ex_table\<lparr>tbl_Columns :=
           [ex_id_column, ex_column\<lparr>col_IsNullable := True\<rparr>]\<rparr>]\<rparr>))
      = [\<lparr>Type = DiffModified, Category = DiffCategoryColumn,
          ObjectName = ''[dbo].[Users].Email'', PropertyName = ''Nullability'',
          SourceValue = ''NOT NULL'', TargetValue = ''NULL'',
          Description = ''Nullability differs: NOT NULL vs NULL'', MigrationSQL = ''''\<rparr>]"
proof -
  have h1: "tbl_Columns ex_table = [ex_id_column] @ ex_column # []"
    by (simp add: ex_table_def)
  have h2: "distinct (map col_Name (tbl_Columns ex_table))"
    by (simp add: ex_defs)
  have h3: "IncludeTables (options ex_comparator)"
    by (simp add: ex_defs)
  have h4: "Tables ex_schema = [] @ ex_table # []"
    by (simp add: ex_defs)
  have h5: "distinct (map formatTableName (Tables ex_schema))"
    by (simp add: ex_schema_def)
  from nullability_change_isolated [of ex_comparator "formatTableName ex_table" ex_column
      ex_table "[ex_id_column]" "[]" insertion_order ex_schema "[]" "[]"] h1 h2 h3 h4 h5
  have "Differences (Compare ex_comparator insertion_order ex_schema
        (ex_schema\<lparr>Tables := [ex_table\<lparr>tbl_Columns :=
           [ex_id_column, ex_column\<lparr>col_IsNullable := True\<rparr>]\<rparr>]\<rparr>))
      = [\<lparr>Type = DiffModified, Category = DiffCategoryColumn,
          ObjectName = ''[dbo].[Users].Email'', PropertyName = ''Nullability'',
          SourceValue = ''NOT NULL'', TargetValue = ''NULL'',
          Description = ''Nullability differs: NOT NULL vs NULL'', MigrationSQL = ''''\<rparr>]"
    by (simp add: ex_table_def ex_column_def formatTableName_def del: Differences_Compare)
  with h1 h2 h3 h4 h5 show ?thesis
    by (simp only: simp_thms)
qed

text \<open>
  Claim C6. Source and target column differ in \<open>Collation\<close> and in nothing else. Comparing
  the two columns gives no difference with \<open>IgnoreCollation\<close>, and without it exactly one
  difference, \<open>Modified\<close>, with the property name \<open>Collation\<close> and the two collations as
  values. Comparing two tables that are the same but for this column (the column names of
  the table being distinct) gives the same result; and so does \<open>Compare\<close>, with tables
  compared, on two schemas that are the same but for this column of one table (the table
  names being distinct).
\<close>

theorem collation_change_suppressed:
  assumes "collation \<noteq> col_Collation col"
  shows "compareColumnDetails c tableName col (col\<lparr>col_Collation := collation\<rparr>)
     = (if IgnoreCollation (options c) then []
        else [\<lparr>Type = DiffModified, Category = DiffCategoryColumn,
                ObjectName = tableName @ ''.'' @ col_Name col,
                PropertyName = ''Collation'', SourceValue = col_Collation col,
                TargetValue = collation,
                Description = ''Collation differs: '' @ col_Collation col @ '' vs '' @ collation,
                MigrationSQL = ''''\<rparr>])
   \<and> (tbl_Columns t = cs1 @ col # cs2 \<and> distinct (map col_Name (tbl_Columns t)) \<longrightarrow>
        compareTableStructure c rank t
          (t\<lparr>tbl_Columns := cs1 @ col\<lparr>col_Collation := collation\<rparr> # cs2\<rparr>)
        = compareColumnDetails c (formatTableName t) col (col\<lparr>col_Collation := collation\<rparr>)
        \<and> (IncludeTables (options c) \<and> Tables S = ts1 @ t # ts2
             \<and> distinct (map formatTableName (Tables S)) \<longrightarrow>
             Differences (Compare c rank S
               (S\<lparr>Tables := ts1
                   @ t\<lparr>tbl_Columns := cs1 @ col\<lparr>col_Collation := collation\<rparr> # cs2\<rparr> # ts2\<rparr>))
             = compareColumnDetails c (formatTableName t) col
                 (col\<lparr>col_Collation := collation\<rparr>)))"
proof (intro conjI impI)
  show "compareColumnDetails c tableName col (col\<lparr>col_Collation := collation\<rparr>)
     = (if IgnoreCollation (options c) then []
        else [\<lparr>Type = DiffModified, Category = DiffCategoryColumn,
                ObjectName = tableName @ ''.'' @ col_Name col,
                PropertyName = ''Collation'', SourceValue = col_Collation col,
                TargetValue = collation,
                Description = ''Collation differs: '' @ col_Collation col @ '' vs '' @ collation,
                MigrationSQL = ''''\<rparr>])"
    using assms by (simp add: compareColumnDetails_def)
next
  assume a: "tbl_Columns t = cs1 @ col # cs2 \<and> distinct (map col_Name (tbl_Columns t))"
  show "compareTableStructure c rank t
          (t\<lparr>tbl_Columns := cs1 @ col\<lparr>col_Collation := collation\<rparr> # cs2\<rparr>)
        = compareColumnDetails c (formatTableName t) col (col\<lparr>col_Collation := collation\<rparr>)"
    by (rule table_column_change [OF conjunct1 [OF a] conjunct2 [OF a]]) simp
next
  assume a: "tbl_Columns t = cs1 @ col # cs2 \<and> distinct (map col_Name (tbl_Columns t))"
    and b: "IncludeTables (options c) \<and> Tables S = ts1 @ t # ts2
         \<and> distinct (map formatTableName (Tables S))"
  show "Differences (Compare c rank S
               (S\<lparr>Tables := ts1
                   @ t\<lparr>tbl_Columns := cs1 @ col\<lparr>col_Collation := collation\<rparr> # cs2\<rparr> # ts2\<rparr>))
             = compareColumnDetails c (formatTableName t) col
                 (col\<lparr>col_Collation := collation\<rparr>)"
    unfolding Differences_Compare
    by (rule column_change [OF conjunct1 [OF b] conjunct1 [OF conjunct2 [OF b]]
          conjunct2 [OF conjunct2 [OF b]] conjunct1 [OF a] conjunct2 [OF a]]) simp
qed

theorem collation_change_suppressed_witness:
  "''Latin1_General_BIN'' \<noteq> col_Collation ex_column
   \<and> tbl_Columns ex_table = [ex_id_column] @ ex_column # []
   \<and> distinct (map col_Name (tbl_Columns ex_table))
   \<and> IncludeTables (options ex_comparator)
   \<and> IncludeTables (options ex_lenient_comparator)
   \<and> Tables ex_schema = [] @ ex_table # []
   \<and> distinct (map formatTableName (Tables ex_schema))
   \<and> IgnoreCollation (options ex_lenient_comparator)
   \<and> Differences (Compare ex_lenient_comparator insertion_order ex_schema
        (ex_schema\<lparr>Tables := [ex_table\<lparr>tbl_Columns :=
           [ex_id_column, ex_column\<lparr>col_Collation := ''Latin1_General_BIN''\<rparr>]\<rparr>]\<rparr>)) = []
   \<and> \<not> IgnoreCollation (options ex_comparator)
   \<and> Differences (Compare ex_comparator insertion_order ex_schema
        (ex_schema\<lparr>Tables := [ex_table\<lparr>tbl_Columns :=
           [ex_id_column, ex_column\<lparr>col_Collation := ''Latin1_General_BIN''\<rparr>]\<rparr>]\<rparr>))
      = [\<lparr>Type = DiffModified, Category = DiffCategoryColumn,
          ObjectName = ''[dbo].[Users].Email'', PropertyName = ''Collation'',
          SourceValue = ''Latin1_General_CI_AS'', TargetValue = ''Latin1_General_BIN'',
          Description = ''Collation differs: Latin1_General_CI_AS vs Latin1_General_BIN'',
          MigrationSQL = ''''\<rparr>]"
proof -
  have h0: "''Latin1_General_BIN'' \<noteq> col_Collation ex_column"
    by (simp add: ex_defs)
  have h1: "tbl_Columns ex_table = [ex_id_column] @ ex_column # []"
    by (simp add: ex_table_def)
  have h2: "distinct (map col_Name (tbl_Columns ex_table))"
    by (simp add: ex_defs)
  have h3: "IncludeTables (options ex_comparator)"
    and h3': "IncludeTables (options ex_lenient_comparator)"
    by (simp_all add: ex_defs ex_lenient_comparator_def)
  have h4: "Tables ex_schema = [] @ ex_table # []"
    by (simp add: ex_defs)
  have h5: "distinct (map formatTableName (Tables ex_schema))"
    by (simp add: ex_schema_def)
  have o1: "IgnoreCollation (options ex_lenient_comparator)"
    by (simp add: ex_lenient_comparator_def)
  have o2: "\<not> IgnoreCollation (options ex_comparator)"
    by (simp add: ex_defs)
  from collation_change_suppressed [OF h0, of ex_lenient_comparator "formatTableName ex_table"
      ex_table "[ex_id_column]" "[]" insertion_order ex_schema "[]" "[]"] h1 h2 h3' h4 h5 o1
  have a: "Differences (Compare ex_lenient_comparator insertion_order ex_schema
        (ex_schema\<lparr>Tables := [ex_table\<lparr>tbl_Columns :=
           [ex_id_column, ex_column\<lparr>col_Collation := ''Latin1_General_BIN''\<rparr>]\<rparr>]\<rparr>)) = []"
    by (simp del: Differences_Compare)
  from collation_change_suppressed [OF h0, of ex_comparator "formatTableName ex_table"
      ex_table "[ex_id_column]" "[]" insertion_order ex_schema "[]" "[]"] h1 h2 h3 h4 h5 o2
  have b: "Differences (Compare ex_comparator insertion_order ex_schema
        (ex_schema\<lparr>Tables := [ex_table\<lparr>tbl_Columns :=
           [ex_id_column, ex_column\<lparr>col_Collation := ''Latin1_General_BIN''\<rparr>]\<rparr>]\<rparr>))
      = [\<lparr>Type = DiffModified, Category = DiffCategoryColumn,
          ObjectName = ''[dbo].[Users].Email'', PropertyName = ''Collation'',
          SourceValue = ''Latin1_General_CI_AS'', TargetValue = ''Latin1_General_BIN'',
          Description = ''Collation differs: Latin1_General_CI_AS vs Latin1_General_BIN'',
          MigrationSQL = ''''\<rparr>]"
    by (simp add: ex_table_def ex_column_def formatTableName_def del: Differences_Compare)
  from h0 h1 h2 h3 h3' h4 h5 o1 a o2 b show ?thesis
    by (simp only: simp_thms)
qed




section \<open>Kind inversion\<close>

lemma nth_split:
  assumes "i < length xs"
  obtains as bs where "xs = as @ xs ! i # bs" and "remove_nth i xs = as @ bs"
    and "\<And>y. xs[i := y] = as @ y # bs"
proof
  show "xs = take i xs @ xs ! i # drop (Suc i) xs"
    using assms by (rule id_take_nth_drop)
  show "remove_nth i xs = take i xs @ drop (Suc i) xs"
    by (simp add: remove_nth_def)
  show "\<And>y. xs[i := y] = take i xs @ y # drop (Suc i) xs"
    using assms by (rule upd_conv_take_nth_drop)
qed

lemma compareTables_extra:
  assumes "distinct (map formatTableName (ts1 @ t # ts2))"
  shows "inverse_pair DiffCategoryTable (formatTableName t)
           (compareTables c rank (ts1 @ t # ts2) (ts1 @ ts2))
           (compareTables c rank (ts1 @ ts2) (ts1 @ t # ts2))"
  by (simp add: compareTables_shape compare_by_name_extra [OF assms] compareTableStructure_refl
      inverse_pair_def)

lemma compareColumns_extra:
  assumes "distinct (map col_Name (cs1 @ col # cs2))"
  shows "inverse_pair DiffCategoryColumn (tableName @ ''.'' @ col_Name col)
           (compareColumns c rank tableName (cs1 @ col # cs2) (cs1 @ cs2))
           (compareColumns c rank tableName (cs1 @ cs2) (cs1 @ col # cs2))"
  by (simp add: compareColumns_shape compare_by_name_extra [OF assms] compareColumnDetails_refl
      inverse_pair_def)

lemma compareIndexes_extra:
  assumes "distinct (map idx_Name (xs1 @ x # xs2))"
  shows "inverse_pair DiffCategoryIndex (tableName @ ''.'' @ idx_Name x)
           (compareIndexes rank tableName (xs1 @ x # xs2) (xs1 @ xs2))
           (compareIndexes rank tableName (xs1 @ xs2) (xs1 @ x # xs2))"
  by (simp add: compareIndexes_shape compare_by_name_extra [OF assms] compareIndexDetails_refl
      inverse_pair_def)

lemma compareForeignKeys_extra:
  assumes "distinct (map fk_Name (xs1 @ x # xs2))"
  shows "inverse_pair DiffCategoryForeignKey (tableName @ ''.'' @ fk_Name x)
           (compareForeignKeys rank tableName (xs1 @ x # xs2) (xs1 @ xs2))
           (compareForeignKeys rank tableName (xs1 @ xs2) (xs1 @ x # xs2))"
  by (simp add: compareForeignKeys_shape compare_by_name_extra [OF assms] inverse_pair_def)

lemma compareCheckConstraints_extra:
  assumes "distinct (map cc_Name (xs1 @ x # xs2))"
  shows "inverse_pair DiffCategoryConstraint (tableName @ ''.'' @ cc_Name x)
           (compareCheckConstraints rank tableName (xs1 @ x # xs2) (xs1 @ xs2))
           (compareCheckConstraints rank tableName (xs1 @ xs2) (xs1 @ x # xs2))"
  by (simp add: compareCheckConstraints_shape compare_by_name_extra [OF assms] inverse_pair_def)

lemma comparePrimaryKeys_extra:
  "inverse_pair DiffCategoryConstraint (tableName @ ''.PK'')
     (comparePrimaryKeys tableName (Some pk) None) (comparePrimaryKeys tableName None (Some pk))"
  by (simp add: inverse_pair_def)

lemma compareViews_extra:
  assumes "distinct (map view_key (xs1 @ x # xs2))"
  shows "inverse_pair DiffCategoryView (view_key x)
           (compareViews c rank (xs1 @ x # xs2) (xs1 @ xs2))
           (compareViews c rank (xs1 @ xs2) (xs1 @ x # xs2))"
  by (simp add: compareViews_shape compare_by_name_extra [OF assms] definitionsEqual_refl
      inverse_pair_def)

lemma compareProcedures_extra:
  assumes "distinct (map procedure_key (xs1 @ x # xs2))"
  shows "inverse_pair DiffCategoryProcedure (procedure_key x)
           (compareProcedures c rank (xs1 @ x # xs2) (xs1 @ xs2))
           (compareProcedures c rank (xs1 @ xs2) (xs1 @ x # xs2))"
  by (simp add: compareProcedures_shape compare_by_name_extra [OF assms] definitionsEqual_refl
      inverse_pair_def)

lemma compareFunctions_extra:
  assumes "distinct (map function_key (xs1 @ x # xs2))"
  shows "inverse_pair DiffCategoryFunction (function_key x)
           (compareFunctions c rank (xs1 @ x # xs2) (xs1 @ xs2))
           (compareFunctions c rank (xs1 @ xs2) (xs1 @ x # xs2))"
  by (simp add: compareFunctions_shape compare_by_name_extra [OF assms] definitionsEqual_refl
      inverse_pair_def)

lemma compareTriggers_extra:
  assumes "distinct (map trigger_key (xs1 @ x # xs2))"
  shows "inverse_pair DiffCategoryTrigger (trigger_key x)
           (compareTriggers c rank (xs1 @ x # xs2) (xs1 @ xs2))
           (compareTriggers c rank (xs1 @ xs2) (xs1 @ x # xs2))"
  by (simp add: compareTriggers_shape compare_by_name_extra [OF assms] definitionsEqual_refl
      inverse_pair_def)


subsection \<open>Lifting to tables and schemas\<close>

lemma compareTableStructure_Indexes:
  "compareTableStructure c rank t (t\<lparr>tbl_Indexes := xs\<rparr>)
     = (if IncludeIndexes (options c)
        then compareIndexes rank (formatTableName t) (tbl_Indexes t) xs else [])"
  "compareTableStructure c rank (t\<lparr>tbl_Indexes := xs\<rparr>) t
     = (if IncludeIndexes (options c)
        then compareIndexes rank (formatTableName t) xs (tbl_Indexes t) else [])"
  by (simp_all add: compareTableStructure_def Let_def compareColumns_refl compareForeignKeys_refl
      compareCheckConstraints_refl comparePrimaryKeys_refl formatTableName_def)

lemma compareTableStructure_ForeignKeys:
  "compareTableStructure c rank t (t\<lparr>tbl_ForeignKeys := xs\<rparr>)
     = (if IncludeForeignKeys (options c)
        then compareForeignKeys rank (formatTableName t) (tbl_ForeignKeys t) xs else [])"
  "compareTableStructure c rank (t\<lparr>tbl_ForeignKeys := xs\<rparr>) t
     = (if IncludeForeignKeys (options c)
        then compareForeignKeys rank (formatTableName t) xs (tbl_ForeignKeys t) else [])"
  by (simp_all add: compareTableStructure_def Let_def compareColumns_refl compareIndexes_refl
      compareCheckConstraints_refl comparePrimaryKeys_refl formatTableName_def)

lemma compareTableStructure_CheckConstraints:
  "compareTableStructure c rank t (t\<lparr>tbl_CheckConstraints := xs\<rparr>)
     = (if IncludeConstraints (options c)
        then compareCheckConstraints rank (formatTableName t) (tbl_CheckConstraints t) xs else [])"
  "compareTableStructure c rank (t\<lparr>tbl_CheckConstraints := xs\<rparr>) t
     = (if IncludeConstraints (options c)
        then compareCheckConstraints rank (formatTableName t) xs (tbl_CheckConstraints t) else [])"
  by (simp_all add: compareTableStructure_def Let_def compareColumns_refl compareIndexes_refl
      compareForeignKeys_refl comparePrimaryKeys_refl formatTableName_def)

lemma compareTableStructure_PrimaryKey:
  "compareTableStructure c rank t (t\<lparr>tbl_PrimaryKey := pk\<rparr>)
     = comparePrimaryKeys (formatTableName t) (tbl_PrimaryKey t) pk"
  "compareTableStructure c rank (t\<lparr>tbl_PrimaryKey := pk\<rparr>) t
     = comparePrimaryKeys (formatTableName t) pk (tbl_PrimaryKey t)"
  by (simp_all add: compareTableStructure_def Let_def compareColumns_refl compareIndexes_refl
      compareForeignKeys_refl compareCheckConstraints_refl formatTableName_def)

lemma compare_differences_StoredProcedures:
  "compare_differences c rank S (S\<lparr>StoredProcedures := xs\<rparr>)
     = (if IncludeProcedures (options c) then compareProcedures c rank (StoredProcedures S) xs
        else [])"
  "compare_differences c rank (S\<lparr>StoredProcedures := xs\<rparr>) S
     = (if IncludeProcedures (options c) then compareProcedures c rank xs (StoredProcedures S)
        else [])"
  by (simp_all add: compare_differences_def compareTables_refl compareViews_refl
      compareFunctions_refl compareTriggers_refl)

lemma compare_differences_Functions:
  "compare_differences c rank S (S\<lparr>Functions := xs\<rparr>)
     = (if IncludeFunctions (options c) then compareFunctions c rank (Functions S) xs else [])"
  "compare_differences c rank (S\<lparr>Functions := xs\<rparr>) S
     = (if IncludeFunctions (options c) then compareFunctions c rank xs (Functions S) else [])"
  by (simp_all add: compare_differences_def compareTables_refl compareViews_refl
      compareProcedures_refl compareTriggers_refl)

lemma compare_differences_Triggers:
  "compare_differences c rank S (S\<lparr>Triggers := xs\<rparr>)
     = (if IncludeTriggers (options c) then compareTriggers c rank (Triggers S) xs else [])"
  "compare_differences c rank (S\<lparr>Triggers := xs\<rparr>) S
     = (if IncludeTriggers (options c) then compareTriggers c rank xs (Triggers S) else [])"
  by (simp_all add: compare_differences_def compareTables_refl compareViews_refl
      compareProcedures_refl compareFunctions_refl)

lemma compare_differences_map_table:
  assumes "IncludeTables (options c)" and "distinct (map formatTableName (Tables A))"
    and "i < length (Tables A)"
    and "formatTableName (f (Tables A ! i)) = formatTableName (Tables A ! i)"
  shows "compare_differences c rank A (map_table i f A)
           = compareTableStructure c rank (Tables A ! i) (f (Tables A ! i))"
    and "compare_differences c rank (map_table i f A) A
           = compareTableStructure c rank (f (Tables A ! i)) (Tables A ! i)"
proof -
  let ?t = "Tables A ! i" and ?t' = "f (Tables A ! i)"
  from assms(3) obtain ts1 ts2 where ts: "Tables A = ts1 @ ?t # ts2"
    and upd: "(Tables A)[i := ?t'] = ts1 @ ?t' # ts2"
    by (rule nth_split) blast
  have d: "distinct (map formatTableName (ts1 @ ?t # ts2))"
    using assms(2) by (simp only: ts [symmetric])
  have d': "distinct (map formatTableName (ts1 @ ?t' # ts2))"
    using d assms(4) by simp
  have "compare_differences c rank A (map_table i f A)
          = compareTables c rank (ts1 @ ?t # ts2) (ts1 @ ?t' # ts2)"
    using assms(1) by (simp add: map_table_def compare_differences_Tables upd) (simp only: ts [symmetric])
  then show "compare_differences c rank A (map_table i f A) = compareTableStructure c rank ?t ?t'"
    by (simp only: compareTables_changed [OF d assms(4)])
  have "compare_differences c rank (map_table i f A) A
          = compareTables c rank (ts1 @ ?t' # ts2) (ts1 @ ?t # ts2)"
    using assms(1) by (simp add: map_table_def compare_differences_Tables upd) (simp only: ts [symmetric])
  then show "compare_differences c rank (map_table i f A) A = compareTableStructure c rank ?t' ?t"
    by (simp only: compareTables_changed [OF d' assms(4) [symmetric]])
qed

lemma unique_names_table:
  assumes "unique_names A" and "i < length (Tables A)"
  shows "distinct (map col_Name (tbl_Columns (Tables A ! i)))"
    and "distinct (map idx_Name (tbl_Indexes (Tables A ! i)))"
    and "distinct (map fk_Name (tbl_ForeignKeys (Tables A ! i)))"
    and "distinct (map cc_Name (tbl_CheckConstraints (Tables A ! i)))"
  using assms by (simp_all add: unique_names_def list_all_length)

text \<open>
  Claim C2, as amended. \<open>A\<close> is a schema with distinct names, \<open>B\<close> is \<open>A\<close> without one of
  its objects, and objects of that kind are compared. Then \<open>Compare(A, B)\<close> returns exactly
  one difference, \<open>Removed\<close>, and \<open>Compare(B, A)\<close> exactly one, \<open>Added\<close>; the two have the same
  category and the same object name, and their descriptions differ.
\<close>

theorem kind_inversion:
  assumes u: "unique_names A" and obj: "compared_object c ref A"
  shows "inverse_pair (object_category ref) (object_name ref A)
           (Differences (Compare c rank A (without ref A)))
           (Differences (Compare c rank (without ref A) A))"
proof (cases ref)
  case (TableRef i)
  with obj have inc: "IncludeTables (options c)" and i: "i < length (Tables A)"
    by simp_all
  from i obtain ts1 ts2 where ts: "Tables A = ts1 @ Tables A ! i # ts2"
    and rm: "remove_nth i (Tables A) = ts1 @ ts2"
    by (rule nth_split)
  have "distinct (map formatTableName (ts1 @ Tables A ! i # ts2))"
    using u by (simp only: unique_names_def ts [symmetric])
  from compareTables_extra [OF this, where c = c and rank = rank] show ?thesis
    using inc by (simp add: TableRef compare_differences_Tables rm) (simp only: ts [symmetric])
next
  case (ColumnRef i j)
  with obj have inc: "IncludeTables (options c)" and i: "i < length (Tables A)"
    and j: "j < length (tbl_Columns (Tables A ! i))"
    by simp_all
  let ?t = "Tables A ! i"
  from j obtain xs1 xs2 where xs: "tbl_Columns ?t = xs1 @ tbl_Columns ?t ! j # xs2"
    and rm: "remove_nth j (tbl_Columns ?t) = xs1 @ xs2"
    by (rule nth_split)
  have "distinct (map col_Name (xs1 @ tbl_Columns ?t ! j # xs2))"
    using unique_names_table(1) [OF u i] by (simp only: xs [symmetric])
  from compareColumns_extra [OF this, where c = c and rank = rank
      and tableName = "formatTableName ?t"] have
    "inverse_pair DiffCategoryColumn (formatTableName ?t @ ''.'' @ col_Name (tbl_Columns ?t ! j))
       (compareColumns c rank (formatTableName ?t) (tbl_Columns ?t) (remove_nth j (tbl_Columns ?t)))
       (compareColumns c rank (formatTableName ?t) (remove_nth j (tbl_Columns ?t)) (tbl_Columns ?t))"
    by (simp only: rm xs [symmetric])
  moreover have "unique_names A \<Longrightarrow> distinct (map formatTableName (Tables A))"
    by (simp add: unique_names_def)
  ultimately show ?thesis
    using inc i u
    by (simp add: ColumnRef compare_differences_map_table formatTableName_def
        compareTableStructure_Columns [unfolded formatTableName_def])
next
  case (IndexRef i j)
  with obj have inc: "IncludeTables (options c)" and inc2: "IncludeIndexes (options c)"
    and i: "i < length (Tables A)" and j: "j < length (tbl_Indexes (Tables A ! i))"
    by simp_all
  let ?t = "Tables A ! i"
  from j obtain xs1 xs2 where xs: "tbl_Indexes ?t = xs1 @ tbl_Indexes ?t ! j # xs2"
    and rm: "remove_nth j (tbl_Indexes ?t) = xs1 @ xs2"
    by (rule nth_split)
  have "distinct (map idx_Name (xs1 @ tbl_Indexes ?t ! j # xs2))"
    using unique_names_table(2) [OF u i] by (simp only: xs [symmetric])
  from compareIndexes_extra [OF this, where rank = rank
      and tableName = "formatTableName ?t"] have
    "inverse_pair DiffCategoryIndex (formatTableName ?t @ ''.'' @ idx_Name (tbl_Indexes ?t ! j))
       (compareIndexes rank (formatTableName ?t) (tbl_Indexes ?t) (remove_nth j (tbl_Indexes ?t)))
       (compareIndexes rank (formatTableName ?t) (remove_nth j (tbl_Indexes ?t)) (tbl_Indexes ?t))"
    by (simp only: rm xs [symmetric])
  moreover have "unique_names A \<Longrightarrow> distinct (map formatTableName (Tables A))"
    by (simp add: unique_names_def)
  ultimately show ?thesis
    using inc inc2 i u
    by (simp add: IndexRef compare_differences_map_table formatTableName_def
        compareTableStructure_Indexes [unfolded formatTableName_def])
next
  case (ForeignKeyRef i j)
  with obj have inc: "IncludeTables (options c)" and inc2: "IncludeForeignKeys (options c)"
    and i: "i < length (Tables A)" and j: "j < length (tbl_ForeignKeys (Tables A ! i))"
    by simp_all
  let ?t = "Tables A ! i"
  from j obtain xs1 xs2 where xs: "tbl_ForeignKeys ?t = xs1 @ tbl_ForeignKeys ?t ! j # xs2"
    and rm: "remove_nth j (tbl_ForeignKeys ?t) = xs1 @ xs2"
    by (rule nth_split)
  have "distinct (map fk_Name (xs1 @ tbl_ForeignKeys ?t ! j # xs2))"
    using unique_names_table(3) [OF u i] by (simp only: xs [symmetric])
  from compareForeignKeys_extra [OF this, where rank = rank
      and tableName = "formatTableName ?t"] have
    "inverse_pair DiffCategoryForeignKey (formatTableName ?t @ ''.'' @ fk_Name (tbl_ForeignKeys ?t ! j))
       (compareForeignKeys rank (formatTableName ?t) (tbl_ForeignKeys ?t) (remove_nth j (tbl_ForeignKeys ?t)))
       (compareForeignKeys rank (formatTableName ?t) (remove_nth j (tbl_ForeignKeys ?t)) (tbl_ForeignKeys ?t))"
    by (simp only: rm xs [symmetric])
  moreover have "unique_names A \<Longrightarrow> distinct (map formatTableName (Tables A))"
    by (simp add: unique_names_def)
  ultimately show ?thesis
    using inc inc2 i u
    by (simp add: ForeignKeyRef compare_differences_map_table formatTableName_def
        compareTableStructure_ForeignKeys [unfolded formatTableName_def])
next
  case (CheckConstraintRef i j)
  with obj have inc: "IncludeTables (options c)" and inc2: "IncludeConstraints (options c)"
    and i: "i < length (Tables A)" and j: "j < length (tbl_CheckConstraints (Tables A ! i))"
    by simp_all
  let ?t = "Tables A ! i"
  from j obtain xs1 xs2 where xs: "tbl_CheckConstraints ?t = xs1 @ tbl_CheckConstraints ?t ! j # xs2"
    and rm: "remove_nth j (tbl_CheckConstraints ?t) = xs1 @ xs2"
    by (rule nth_split)
  have "distinct (map cc_Name (xs1 @ tbl_CheckConstraints ?t ! j # xs2))"
    using unique_names_table(4) [OF u i] by (simp only: xs [symmetric])
  from compareCheckConstraints_extra [OF this, where rank = rank
      and tableName = "formatTableName ?t"] have
    "inverse_pair DiffCategoryConstraint (formatTableName ?t @ ''.'' @ cc_Name (tbl_CheckConstraints ?t ! j))
       (compareCheckConstraints rank (formatTableName ?t) (tbl_CheckConstraints ?t) (remove_nth j (tbl_CheckConstraints ?t)))
       (compareCheckConstraints rank (formatTableName ?t) (remove_nth j (tbl_CheckConstraints ?t)) (tbl_CheckConstraints ?t))"
    by (simp only: rm xs [symmetric])
  moreover have "unique_names A \<Longrightarrow> distinct (map formatTableName (Tables A))"
    by (simp add: unique_names_def)
  ultimately show ?thesis
    using inc inc2 i u
    by (simp add: CheckConstraintRef compare_differences_map_table formatTableName_def
        compareTableStructure_CheckConstraints [unfolded formatTableName_def])
next
  case (PrimaryKeyRef i)
  with obj have inc: "IncludeTables (options c)" and i: "i < length (Tables A)"
    by simp_all
  from obj PrimaryKeyRef obtain pk where pk: "tbl_PrimaryKey (Tables A ! i) = Some pk"
    by auto
  have "unique_names A \<Longrightarrow> distinct (map formatTableName (Tables A))"
    by (simp add: unique_names_def)
  with comparePrimaryKeys_extra [of "formatTableName (Tables A ! i)" pk] show ?thesis
    using inc i u pk
    by (simp add: PrimaryKeyRef compare_differences_map_table formatTableName_def
        compareTableStructure_PrimaryKey [unfolded formatTableName_def])
next
  case (ViewRef i)
  with obj have inc: "IncludeViews (options c)" and i: "i < length (Views A)"
    by simp_all
  from i obtain xs1 xs2 where xs: "Views A = xs1 @ Views A ! i # xs2"
    and rm: "remove_nth i (Views A) = xs1 @ xs2"
    by (rule nth_split)
  have "distinct (map view_key (xs1 @ Views A ! i # xs2))"
    using u by (simp only: unique_names_def xs [symmetric])
  from compareViews_extra [OF this, where c = c and rank = rank] show ?thesis
    using inc by (simp add: ViewRef compare_differences_Views rm) (simp only: xs [symmetric])
next
  case (ProcedureRef i)
  with obj have inc: "IncludeProcedures (options c)" and i: "i < length (StoredProcedures A)"
    by simp_all
  from i obtain xs1 xs2 where xs: "StoredProcedures A = xs1 @ StoredProcedures A ! i # xs2"
    and rm: "remove_nth i (StoredProcedures A) = xs1 @ xs2"
    by (rule nth_split)
  have "distinct (map procedure_key (xs1 @ StoredProcedures A ! i # xs2))"
    using u by (simp only: unique_names_def xs [symmetric])
  from compareProcedures_extra [OF this, where c = c and rank = rank] show ?thesis
    using inc by (simp add: ProcedureRef compare_differences_StoredProcedures rm) (simp only: xs [symmetric])
next
  case (FunctionRef i)
  with obj have inc: "IncludeFunctions (options c)" and i: "i < length (Functions A)"
    by simp_all
  from i obtain xs1 xs2 where xs: "Functions A = xs1 @ Functions A ! i # xs2"
    and rm: "remove_nth i (Functions A) = xs1 @ xs2"
    by (rule nth_split)
  have "distinct (map function_key (xs1 @ Functions A ! i # xs2))"
    using u by (simp only: unique_names_def xs [symmetric])
  from compareFunctions_extra [OF this, where c = c and rank = rank] show ?thesis
    using inc by (simp add: FunctionRef compare_differences_Functions rm) (simp only: xs [symmetric])
next
  case (TriggerRef i)
  with obj have inc: "IncludeTriggers (options c)" and i: "i < length (Triggers A)"
    by simp_all
  from i obtain xs1 xs2 where xs: "Triggers A = xs1 @ Triggers A ! i # xs2"
    and rm: "remove_nth i (Triggers A) = xs1 @ xs2"
    by (rule nth_split)
  have "distinct (map trigger_key (xs1 @ Triggers A ! i # xs2))"
    using u by (simp only: unique_names_def xs [symmetric])
  from compareTriggers_extra [OF this, where c = c and rank = rank] show ?thesis
    using inc by (simp add: TriggerRef compare_differences_Triggers rm) (simp only: xs [symmetric])
qed


theorem kind_inversion_witness:
  "unique_names ex_schema \<and> compared_object ex_comparator (ColumnRef 0 1) ex_schema
   \<and> inverse_pair DiffCategoryColumn ''[dbo].[Users].Email''
        (Differences (Compare ex_comparator insertion_order ex_schema
           (without (ColumnRef 0 1) ex_schema)))
        (Differences (Compare ex_comparator insertion_order
           (without (ColumnRef 0 1) ex_schema) ex_schema))"
proof -
  have h1: "unique_names ex_schema"
    by code_simp
  have h2: "compared_object ex_comparator (ColumnRef 0 1) ex_schema"
    by code_simp
  have n: "object_name (ColumnRef 0 1) ex_schema = ''[dbo].[Users].Email''"
    by code_simp
  have "inverse_pair DiffCategoryColumn ''[dbo].[Users].Email''
        (Differences (Compare ex_comparator insertion_order ex_schema
           (without (ColumnRef 0 1) ex_schema)))
        (Differences (Compare ex_comparator insertion_order
           (without (ColumnRef 0 1) ex_schema) ex_schema))"
    using kind_inversion [OF h1 h2, of insertion_order]
    by (simp only: n object_category.simps)
  with h1 h2 show ?thesis
    by (simp only: simp_thms)
qed

text \<open>
  Claim C2 as it was stated fails on the descriptions: for a table present in the source
  only, the two directions describe it with different texts.
\<close>

theorem kind_inversion_counterexample:
  "map Description (Differences (Compare ex_comparator insertion_order ex_schema
       (ex_schema\<lparr>Tables := []\<rparr>)))
     = [''Table [[dbo].[Users]] exists in source but not in target'']
   \<and> map Description (Differences (Compare ex_comparator insertion_order
       (ex_schema\<lparr>Tables := []\<rparr>) ex_schema))
     = [''Table [[dbo].[Users]] exists in target but not in source'']
   \<and> map Description (Differences (Compare ex_comparator insertion_order ex_schema
       (ex_schema\<lparr>Tables := []\<rparr>)))
     \<noteq> map Description (Differences (Compare ex_comparator insertion_order
       (ex_schema\<lparr>Tables := []\<rparr>) ex_schema))"
  by code_simp

section \<open>Sections of the git-style report\<close>

text \<open>
  Claim C1. The report of \<open>PrintGitStyle\<close> is not grouped by category. Source and target
  both hold the tables \<open>[dbo].[Users]\<close> and \<open>[dbo].[Orders]\<close>, and in the target the column
  of each table is nullable and the index of each table is unique. Whatever the iteration
  order of the maps, \<open>Compare\<close> returns the differences table by table, in the categories
  \<open>COLUMN, INDEX, COLUMN, INDEX\<close>; \<open>PrintGitStyle\<close> starts a section whenever the category is
  not that of the line before, and so prints the headers \<open>@@ COLUMN @@\<close> and \<open>@@ INDEX @@\<close>
  twice each. The marker of every line is wrapped in colour escapes.
\<close>

theorem PrintGitStyle_repeats_sections:
  "map Category (Differences (Compare ex_comparator rank
       (ex_two_tables ''a'' False) (ex_two_tables ''b'' True)))
     = [DiffCategoryColumn, DiffCategoryIndex, DiffCategoryColumn, DiffCategoryIndex]
   \<and> PrintGitStyle (Compare ex_comparator insertion_order
       (ex_two_tables ''a'' False) (ex_two_tables ''b'' True))
     = concat (map (\<lambda>line. line @ nl)
         [''diff --sqlpulse a/a b/b'',
          ''--- a/a'',
          ''+++ b/b'',
          [],
          [],
          ''@@ COLUMN @@'',
          esc @ ''[33m~'' @ esc
            @ ''[0m [COLUMN] [dbo].[Users].Email: Nullability differs: NOT NULL vs NULL'',
          [],
          ''@@ INDEX @@'',
          esc @ ''[33m~'' @ esc @ ''[0m [INDEX] [dbo].[Users].IX_Email: Unique property differs'',
          [],
          ''@@ COLUMN @@'',
          esc @ ''[33m~'' @ esc
            @ ''[0m [COLUMN] [dbo].[Orders].Email: Nullability differs: NOT NULL vs NULL'',
          [],
          ''@@ INDEX @@'',
          esc @ ''[33m~'' @ esc @ ''[0m [INDEX] [dbo].[Orders].IX_Email: Unique property differs''])"
proof
  show "map Category (Differences (Compare ex_comparator rank
       (ex_two_tables ''a'' False) (ex_two_tables ''b'' True)))
     = [DiffCategoryColumn, DiffCategoryIndex, DiffCategoryColumn, DiffCategoryIndex]"
    by (simp add: ex_defs ex_two_tables_def ex_indexed_table_def ex_index_def
      compare_differences_def compareTables_def tablesToMap_def formatTableName_def
      for_range_def range_map_def compareTableStructure_def compareColumns_def columnsToMap_def
      compareColumnDetails_def compareIndexes_def indexesToMap_def compareIndexDetails_def
      compareForeignKeys_def foreignKeysToMap_def compareCheckConstraints_def
      checkConstraintsToMap_def compareViews_def viewsToMap_def compareProcedures_def
      proceduresToMap_def compareFunctions_def functionsToMap_def compareTriggers_def
      triggersToMap_def indexColumnsToString_def null_text_def Let_def)
  show "PrintGitStyle (Compare ex_comparator insertion_order
       (ex_two_tables ''a'' False) (ex_two_tables ''b'' True))
     = concat (map (\<lambda>line. line @ nl)
         [''diff --sqlpulse a/a b/b'',
          ''--- a/a'',
          ''+++ b/b'',
          [],
          [],
          ''@@ COLUMN @@'',
          esc @ ''[33m~'' @ esc
            @ ''[0m [COLUMN] [dbo].[Users].Email: Nullability differs: NOT NULL vs NULL'',
          [],
          ''@@ INDEX @@'',
          esc @ ''[33m~'' @ esc @ ''[0m [INDEX] [dbo].[Users].IX_Email: Unique property differs'',
          [],
          ''@@ COLUMN @@'',
          esc @ ''[33m~'' @ esc
            @ ''[0m [COLUMN] [dbo].[Orders].Email: Nullability differs: NOT NULL vs NULL'',
          [],
          ''@@ INDEX @@'',
          esc @ ''[33m~'' @ esc @ ''[0m [INDEX] [dbo].[Orders].IX_Email: Unique property differs''])"
    by code_simp
qed

end
